theory Spec2Isabelle
  imports Main
begin

section \<open>The Playwright MCP session of \<^verbatim>\<open>_utils/playwright_session.py\<close>\<close>

text \<open>
  The session talks to a child process in line-delimited JSON-RPC. One thread per caller
  runs \<^verbatim>\<open>_send_request\<close>; one background thread runs \<^verbatim>\<open>_read_stdout\<close> (the output
  pump). The model is sequential: a call of \<^verbatim>\<open>_send_request\<close> is the block that allocates
  the id, registers the queue and writes the request, then the lines the pump handles
  while the caller waits (given by the environment), then the block that takes the reply
  or times out. Real time is not modelled: which lines arrive before the timeout is the
  environment's choice. Console output (\<^verbatim>\<open>print\<close>) is left out, and so is the stderr
  thread, which touches nothing of the session.
\<close>

subsection \<open>Values of \<^verbatim>\<open>json.loads\<close>\<close>

text \<open>
  A Python float is kept as its exact value \<open>m * 2 ^ e\<close> (or as not finite); the
  code only ever compares one with the integer keys of the pending table.
  A JSON object is the list of its items in insertion order; \<^verbatim>\<open>json.loads\<close> returns
  objects with distinct keys, and a key is looked up with \<open>map_of\<close>.
  A string inside a value is kept as its UTF-8 bytes: the code compares such strings,
  concatenates them and looks for ASCII substrings and suffixes in them, which the
  encoding preserves.
  A line read from the child is a \<^verbatim>\<open>str\<close> whose characters \<^verbatim>\<open>strip\<close> inspects, so a line
  is the list of its code points.
\<close>

type_synonym line = "nat list"

datatype pyfloat = Finite int int | NotFinite

datatype json =
    JNull
  | JBool bool
  | JInt int
  | JFloat pyfloat
  | JStr string
  | JArr "json list"
  | JObj "(string \<times> json) list"

datatype error =
    RuntimeError string
  | TimeoutError string
  | TypeError
  | AttributeError
  | KeyError
  | ValueError
  | JSONDecodeError
  | RecursionError
  | Base64Error
  | FileNotFoundError
  | SystemExit int

text \<open>
  The library functions the code calls, taken as parameters:
  \<^verbatim>\<open>json.loads\<close> (\<open>Inl\<close> is the exception it raises: \<^verbatim>\<open>JSONDecodeError\<close> on text that
  is not JSON, but also \<^verbatim>\<open>RecursionError\<close> on deep nesting and \<^verbatim>\<open>ValueError\<close> on an
  integer of more digits than the interpreter converts), \<^verbatim>\<open>json.dumps(x, indent=2)\<close>,
  \<^verbatim>\<open>str(x)\<close> as an f-string formats a value, \<^verbatim>\<open>base64.b64decode\<close> on a string
  (\<open>Inl\<close> when it raises) and \<^verbatim>\<open>str(Path(d) / name)\<close>, which normalises \<open>d\<close> as
  \<^verbatim>\<open>Path\<close> does.
\<close>

record pylib =
  json_loads :: "line \<Rightarrow> error + json"
  json_dumps_indent :: "json \<Rightarrow> string"
  py_str :: "json \<Rightarrow> string"
  b64decode :: "string \<Rightarrow> error + string"
  path_join :: "string \<Rightarrow> string \<Rightarrow> string"

subsection \<open>Python's operators on these values\<close>

text \<open>\<^verbatim>\<open>str.strip()\<close>: white space is removed at both ends. The white space is that
  of \<^verbatim>\<open>str.isspace\<close>: the code points U+0009 to U+000D, U+001C to U+0020, U+0085, U+00A0,
  U+1680, U+2000 to U+200A, U+2028, U+2029, U+202F, U+205F and U+3000.\<close>

definition py_isspace :: "nat \<Rightarrow> bool" where
  "py_isspace c =
     (c \<in> set [0x09, 0x0A, 0x0B, 0x0C, 0x0D, 0x1C, 0x1D, 0x1E, 0x1F, 0x20, 0x85, 0xA0,
                0x1680, 0x2000, 0x2001, 0x2002, 0x2003, 0x2004, 0x2005, 0x2006, 0x2007,
                0x2008, 0x2009, 0x200A, 0x2028, 0x2029, 0x202F, 0x205F, 0x3000])"

definition strip :: "line \<Rightarrow> line" where
  "strip l = rev (dropWhile py_isspace (rev (dropWhile py_isspace l)))"

definition endswith :: "string \<Rightarrow> string \<Rightarrow> bool" where
  "endswith s suf = (length suf \<le> length s \<and> drop (length s - length suf) s = suf)"

fun is_substring :: "string \<Rightarrow> string \<Rightarrow> bool" where
  "is_substring p [] = (p = [])"
| "is_substring p (c # cs) = (take (length p) (c # cs) = p \<or> is_substring p cs)"

text \<open>\<^verbatim>\<open>k in v\<close> for a string \<open>k\<close>: a key of a dict, an element of a list, a
  substring of a string; any other value is not iterable.\<close>

fun py_contains :: "string \<Rightarrow> json \<Rightarrow> error + bool" where
  "py_contains k (JObj kvs) = Inr (map_of kvs k \<noteq> None)"
| "py_contains k (JArr xs) = Inr (List.member xs (JStr k))"
| "py_contains k (JStr s) = Inr (is_substring k s)"
| "py_contains k JNull = Inl TypeError"
| "py_contains k (JBool b) = Inl TypeError"
| "py_contains k (JInt n) = Inl TypeError"
| "py_contains k (JFloat f) = Inl TypeError"

text \<open>\<^verbatim>\<open>v[k]\<close> for a string \<open>k\<close>: only a dict can be indexed by a string.\<close>

fun py_getitem :: "json \<Rightarrow> string \<Rightarrow> error + json" where
  "py_getitem (JObj kvs) k = (case map_of kvs k of None \<Rightarrow> Inl KeyError | Some v \<Rightarrow> Inr v)"
| "py_getitem JNull k = Inl TypeError"
| "py_getitem (JBool b) k = Inl TypeError"
| "py_getitem (JInt n) k = Inl TypeError"
| "py_getitem (JFloat f) k = Inl TypeError"
| "py_getitem (JStr s) k = Inl TypeError"
| "py_getitem (JArr xs) k = Inl TypeError"

text \<open>\<^verbatim>\<open>item.get(k, default)\<close>: only a dict has the method.\<close>

fun py_get :: "json \<Rightarrow> string \<Rightarrow> json \<Rightarrow> error + json" where
  "py_get (JObj kvs) k d = Inr (case map_of kvs k of None \<Rightarrow> d | Some v \<Rightarrow> v)"
| "py_get JNull k d = Inl AttributeError"
| "py_get (JBool b) k d = Inl AttributeError"
| "py_get (JInt n) k d = Inl AttributeError"
| "py_get (JFloat f) k d = Inl AttributeError"
| "py_get (JStr s) k d = Inl AttributeError"
| "py_get (JArr xs) k d = Inl AttributeError"

text \<open>\<^verbatim>\<open>for item in v\<close>: the elements of a list, the keys of a dict, the characters of
  a string (one item per byte here; the code only ever calls \<^verbatim>\<open>get\<close> on the first item,
  which a \<^verbatim>\<open>str\<close> does not have).\<close>

fun py_iter :: "json \<Rightarrow> error + json list" where
  "py_iter (JArr xs) = Inr xs"
| "py_iter (JObj kvs) = Inr (map (\<lambda>kv. JStr (fst kv)) kvs)"
| "py_iter (JStr s) = Inr (map (\<lambda>c. JStr [c]) s)"
| "py_iter JNull = Inl TypeError"
| "py_iter (JBool b) = Inl TypeError"
| "py_iter (JInt n) = Inl TypeError"
| "py_iter (JFloat f) = Inl TypeError"

text \<open>\<^verbatim>\<open>"\n".join(texts)\<close>: every element must be a string.\<close>

fun py_join :: "json list \<Rightarrow> error + string" where
  "py_join [] = Inr []"
| "py_join [JStr s] = Inr s"
| "py_join (JStr s # t # ts) =
     (case py_join (t # ts) of Inl e \<Rightarrow> Inl e | Inr r \<Rightarrow> Inr (s @ [CHR 0x0A] @ r))"
| "py_join (v # ts) = Inl TypeError"

text \<open>The integer a value equals as a key of the pending table, whose keys are
  integers: \<^verbatim>\<open>True == 1\<close>, \<^verbatim>\<open>2.0 == 2\<close>; a list or a dict cannot be hashed.\<close>

fun float_int :: "pyfloat \<Rightarrow> int option" where
  "float_int (Finite m e) =
     (if 0 \<le> e then Some (m * 2 ^ nat e)
      else if m mod 2 ^ nat (- e) = 0 then Some (m div 2 ^ nat (- e))
      else None)"
| "float_int NotFinite = None"

fun pending_key :: "json \<Rightarrow> error + int option" where
  "pending_key (JInt n) = Inr (Some n)"
| "pending_key (JBool b) = Inr (Some (if b then 1 else 0))"
| "pending_key (JFloat f) = Inr (float_int f)"
| "pending_key (JStr s) = Inr None"
| "pending_key JNull = Inr None"
| "pending_key (JArr xs) = Inl TypeError"
| "pending_key (JObj kvs) = Inl TypeError"

text \<open>\<^verbatim>\<open>del d[k]\<close> raises \<^verbatim>\<open>KeyError\<close> when the key is absent.\<close>

definition py_del :: "(int \<Rightarrow> 'v option) \<Rightarrow> int \<Rightarrow> error + (int \<Rightarrow> 'v option)" where
  "py_del d k = (case d k of None \<Rightarrow> Inl KeyError | Some v \<Rightarrow> Inr (d(k := None)))"

subsection \<open>The session\<close>

text \<open>
  The child process: its command line, the requests written to its standard input (each
  stands for the line \<^verbatim>\<open>json.dumps(request) + "\n"\<close>, written and flushed) and whether it
  runs. A \<^verbatim>\<open>queue.Queue\<close> is the list of the messages put and not yet taken. Of the
  stdout thread the session keeps whether it still runs: an exception that leaves
  \<^verbatim>\<open>_read_stdout\<close> ends it. \<open>output_dir\<close> is the string given to \<^verbatim>\<open>Path\<close>; it is only
  used through \<open>path_join\<close>.
\<close>

datatype proc_status = Alive | Terminated | Killed

datatype thread = ThreadRunning | ThreadEnded

record proc =
  cmd :: "string list"
  stdin :: "json list"
  status :: proc_status

record session =
  process :: "proc option"
  msg_id :: int
  pending_responses :: "int \<Rightarrow> json list option"
  stdout_thread :: "thread option"
  running :: bool
  output_dir :: string

text \<open>\<^verbatim>\<open>__init__\<close>: \<open>cwd\<close> is \<^verbatim>\<open>Path.cwd()\<close>.\<close>

definition session_init :: "string \<Rightarrow> string option \<Rightarrow> session" where
  "session_init cwd od =
     \<lparr> process = None, msg_id = 1, pending_responses = Map.empty, stdout_thread = None,
       running = False,
       output_dir = (case od of None \<Rightarrow> cwd | Some d \<Rightarrow> if d = [] then cwd else d) \<rparr>"

subsection \<open>The output pump: \<^verbatim>\<open>_read_stdout\<close>\<close>

text \<open>The body of the loop, for one line. Only \<^verbatim>\<open>JSONDecodeError\<close> is caught; any
  other exception of \<^verbatim>\<open>json.loads\<close> and a \<^verbatim>\<open>TypeError\<close> of the test leave the loop.\<close>

definition read_line :: "pylib \<Rightarrow> session \<Rightarrow> line \<Rightarrow> (error + unit) \<times> session" where
  "read_line lib s l =
     (let line = strip l in
      if line = [] then (Inr (), s)
      else case json_loads lib line of
        Inl e \<Rightarrow> if e = JSONDecodeError then (Inr (), s) else (Inl e, s)
      | Inr msg \<Rightarrow>
          (case py_contains ''id'' msg of
            Inl e \<Rightarrow> (Inl e, s)
          | Inr False \<Rightarrow> (Inr (), s)
          | Inr True \<Rightarrow>
              (case py_getitem msg ''id'' of
                Inl e \<Rightarrow> (Inl e, s)
              | Inr v \<Rightarrow>
                  (case pending_key v of
                    Inl e \<Rightarrow> (Inl e, s)
                  | Inr None \<Rightarrow> (Inr (), s)
                  | Inr (Some k) \<Rightarrow>
                      (case pending_responses s k of
                        None \<Rightarrow> (Inr (), s)
                      | Some q \<Rightarrow>
                          (Inr (), s\<lparr>pending_responses :=
                                      (pending_responses s)(k \<mapsto> q @ [msg])\<rparr>))))))"

fun read_lines :: "pylib \<Rightarrow> session \<Rightarrow> line list \<Rightarrow> (error + unit) \<times> session" where
  "read_lines lib s [] = (Inr (), s)"
| "read_lines lib s (l # ls) =
     (case read_line lib s l of
        (Inl e, s') \<Rightarrow> (Inl e, s')
      | (Inr u, s') \<Rightarrow> read_lines lib s' ls)"

text \<open>\<open>ls\<close> are the lines the loop reads from the child's standard output. (The
  streams of a started process are pipes, so only \<^verbatim>\<open>self.process\<close> can be missing.)\<close>

definition read_stdout :: "pylib \<Rightarrow> session \<Rightarrow> line list \<Rightarrow> (error + unit) \<times> session" where
  "read_stdout lib s ls =
     (case process s of None \<Rightarrow> (Inr (), s) | Some p \<Rightarrow> read_lines lib s ls)"

text \<open>The stdout thread, which runs \<^verbatim>\<open>_read_stdout\<close>: while it runs it handles the lines
  that arrive. The thread ends when \<^verbatim>\<open>_read_stdout\<close> returns at once for want of a process
  or is left by an exception, and a thread that has ended (or was never started) handles
  nothing. (It also ends with the stream; no line arrives after that.)\<close>

definition pump :: "pylib \<Rightarrow> session \<Rightarrow> line list \<Rightarrow> session" where
  "pump lib s ls =
     (case stdout_thread s of
        Some ThreadRunning \<Rightarrow>
          (case read_stdout lib s ls of
             (Inl e, s') \<Rightarrow> s'\<lparr>stdout_thread := Some ThreadEnded\<rparr>
           | (Inr u, s') \<Rightarrow>
               if process s = None then s'\<lparr>stdout_thread := Some ThreadEnded\<rparr> else s')
      | _ \<Rightarrow> s)"

subsection \<open>\<^verbatim>\<open>_send_request\<close>\<close>

text \<open>
  The environment of one call: \<open>stdin_error\<close> is \<^verbatim>\<open>str(e)\<close> when the write or the flush
  raises; \<open>arrivals\<close> are the lines that reach the pump between the write and the moment
  \<^verbatim>\<open>response_queue.get\<close> returns or times out.
\<close>

record send_env =
  stdin_error :: "string option"
  arrivals :: "line list"

definition make_request :: "string \<Rightarrow> (string \<times> json) list option \<Rightarrow> int \<Rightarrow> json" where
  "make_request method params mid =
     JObj [(''jsonrpc'', JStr ''2.0''), (''method'', JStr method),
           (''params'', JObj (case params of None \<Rightarrow> [] | Some ps \<Rightarrow> ps)),
           (''id'', JInt mid)]"

text \<open>Lines 131 to 143: the id is allocated, the queue registered and the request
  written. The result is the local \<^verbatim>\<open>msg_id\<close>.\<close>

definition register_and_write ::
  "send_env \<Rightarrow> session \<Rightarrow> proc \<Rightarrow> string \<Rightarrow> (string \<times> json) list option
     \<Rightarrow> (error + int) \<times> session" where
  "register_and_write env s p method params =
     (let mid = msg_id s;
          s1 = s\<lparr>msg_id := msg_id s + 1\<rparr>;
          s2 = s1\<lparr>pending_responses := (pending_responses s1)(mid \<mapsto> [])\<rparr>;
          request = make_request method params mid
      in case stdin_error env of
           Some e \<Rightarrow>
             (case py_del (pending_responses s2) mid of
                Inl err \<Rightarrow> (Inl err, s2)
              | Inr d \<Rightarrow> (Inl (RuntimeError (''Send failed: '' @ e)),
                         s2\<lparr>pending_responses := d\<rparr>))
         | None \<Rightarrow> (Inr mid, s2\<lparr>process := Some (p\<lparr>stdin := stdin p @ [request]\<rparr>)\<rparr>))"

text \<open>Lines 145 to 151, when \<^verbatim>\<open>response_queue.get(timeout=timeout)\<close> returns or gives
  up: the first message of the queue is taken, or the queue is empty. On a negative
  timeout \<^verbatim>\<open>get\<close> raises \<^verbatim>\<open>ValueError\<close> before it looks at the queue; the handler is for
  \<^verbatim>\<open>queue.Empty\<close> only, so the exception leaves the call and no \<^verbatim>\<open>del\<close> runs.\<close>

definition await_response :: "pylib \<Rightarrow> session \<Rightarrow> int \<Rightarrow> int \<Rightarrow> (error + json) \<times> session" where
  "await_response lib s mid timeout =
     (if timeout < 0 then (Inl ValueError, s)
      else case pending_responses s mid of
        Some (response # rest) \<Rightarrow>
          (case py_del (pending_responses s) mid of
             Inl err \<Rightarrow> (Inl err, s)
           | Inr d \<Rightarrow> (Inr response, s\<lparr>pending_responses := d\<rparr>))
      | _ \<Rightarrow>
          (case py_del (pending_responses s) mid of
             Inl err \<Rightarrow> (Inl err, s)
           | Inr d \<Rightarrow>
               (Inl (TimeoutError (''Request timed out after ''
                       @ py_str lib (JInt timeout) @ ''s'')),
                s\<lparr>pending_responses := d\<rparr>)))"

definition send_request ::
  "pylib \<Rightarrow> send_env \<Rightarrow> session \<Rightarrow> string \<Rightarrow> (string \<times> json) list option \<Rightarrow> int
     \<Rightarrow> (error + json) \<times> session" where
  "send_request lib env s method params timeout =
     (case process s of
        None \<Rightarrow> (Inl (RuntimeError ''Server not started''), s)
      | Some p \<Rightarrow>
          (case register_and_write env s p method params of
             (Inl e, s') \<Rightarrow> (Inl e, s')
           | (Inr mid, s3) \<Rightarrow>
               await_response lib (pump lib s3 (arrivals env)) mid timeout))"

text \<open>What the request's queue holds when the caller's wait ends: the replies
  delivered to its result slot within the timeout.\<close>

definition delivered ::
  "pylib \<Rightarrow> send_env \<Rightarrow> session \<Rightarrow> string \<Rightarrow> (string \<times> json) list option \<Rightarrow> json list" where
  "delivered lib env s method params =
     (case process s of
        None \<Rightarrow> []
      | Some p \<Rightarrow>
          (case register_and_write env s p method params of
             (Inl e, s') \<Rightarrow> []
           | (Inr mid, s3) \<Rightarrow>
               (case pending_responses (pump lib s3 (arrivals env)) mid of
                  None \<Rightarrow> []
                | Some q \<Rightarrow> q)))"

text \<open>Calls made one after the other on one session, and the ids of the requests
  written to the child.\<close>

fun send_requests ::
  "pylib \<Rightarrow> session \<Rightarrow> (send_env \<times> string \<times> (string \<times> json) list option \<times> int) list
     \<Rightarrow> session" where
  "send_requests lib s [] = s"
| "send_requests lib s ((env, method, params, timeout) # cs) =
     send_requests lib (snd (send_request lib env s method params timeout)) cs"

fun request_id :: "json \<Rightarrow> int list" where
  "request_id (JObj kvs) = (case map_of kvs ''id'' of Some (JInt n) \<Rightarrow> [n] | _ \<Rightarrow> [])"
| "request_id v = []"

definition sent_ids :: "session \<Rightarrow> int list" where
  "sent_ids s = (case process s of None \<Rightarrow> [] | Some p \<Rightarrow> concat (map request_id (stdin p)))"

subsection \<open>The handshake, \<^verbatim>\<open>start\<close> and \<^verbatim>\<open>stop\<close>\<close>

definition initialize :: "pylib \<Rightarrow> send_env \<Rightarrow> session \<Rightarrow> (error + unit) \<times> session" where
  "initialize lib env s =
     (case send_request lib env s ''initialize''
             (Some [(''protocolVersion'', JStr ''2024-11-05''), (''capabilities'', JObj []),
                    (''clientInfo'', JObj [(''name'', JStr ''playwright-session''),
                                           (''version'', JStr ''1.0.0'')])]) 60 of
        (Inl e, s') \<Rightarrow> (Inl e, s')
      | (Inr response, s') \<Rightarrow>
          (case py_contains ''error'' response of
             Inl e \<Rightarrow> (Inl e, s')
           | Inr False \<Rightarrow> (Inr (), s')
           | Inr True \<Rightarrow>
               (case py_getitem response ''error'' of
                  Inl e \<Rightarrow> (Inl e, s')
                | Inr v \<Rightarrow> (Inl (RuntimeError (''Initialize failed: '' @ py_str lib v)), s'))))"

text \<open>\<open>popen_error\<close> is the exception of \<^verbatim>\<open>subprocess.Popen\<close>, if it raises; both
  handlers of \<^verbatim>\<open>start\<close> end in \<^verbatim>\<open>sys.exit(1)\<close>.\<close>

record start_env =
  chromium_path :: "string option"
  popen_error :: "error option"
  handshake :: send_env

definition start :: "pylib \<Rightarrow> start_env \<Rightarrow> session \<Rightarrow> bool \<Rightarrow> (error + unit) \<times> session" where
  "start lib env s headless =
     (let command = [''npx'', ''-y'', ''@playwright/mcp@latest'']
            @ (if headless then [''--headless''] else [])
            @ (case chromium_path env of
                 None \<Rightarrow> []
               | Some path \<Rightarrow> [''--executable-path'', path])
      in case popen_error env of
           Some e \<Rightarrow> (Inl (SystemExit 1), s)
         | None \<Rightarrow>
             (let s1 = s\<lparr>process := Some \<lparr>cmd = command, stdin = [], status = Alive\<rparr>,
                         running := True, stdout_thread := Some ThreadRunning\<rparr>
              in case initialize lib (handshake env) s1 of
                   (Inl e, s2) \<Rightarrow> (Inl (SystemExit 1), s2)
                 | (Inr u, s2) \<Rightarrow> (Inr (), s2)))"


subsection \<open>The facade\<close>

definition call_tool ::
  "pylib \<Rightarrow> send_env \<Rightarrow> session \<Rightarrow> string \<Rightarrow> (string \<times> json) list \<Rightarrow> int
     \<Rightarrow> (error + json) \<times> session" where
  "call_tool lib env s name arguments timeout =
     send_request lib env s ''tools/call''
       (Some [(''name'', JStr name), (''arguments'', JObj arguments)]) timeout"

text \<open>The test \<^verbatim>\<open>"result" in result and "content" in result["result"]\<close>.\<close>

definition has_content :: "json \<Rightarrow> error + bool" where
  "has_content result =
     (case py_contains ''result'' result of
        Inl e \<Rightarrow> Inl e
      | Inr False \<Rightarrow> Inr False
      | Inr True \<Rightarrow>
          (case py_getitem result ''result'' of
             Inl e \<Rightarrow> Inl e
           | Inr v \<Rightarrow> py_contains ''content'' v))"

text \<open>The items of \<^verbatim>\<open>result["result"]["content"]\<close>, as the \<^verbatim>\<open>for\<close> loop reads them.\<close>

definition content_items :: "json \<Rightarrow> error + json list" where
  "content_items result =
     (case py_getitem result ''result'' of
        Inl e \<Rightarrow> Inl e
      | Inr v \<Rightarrow>
          (case py_getitem v ''content'' of
             Inl e \<Rightarrow> Inl e
           | Inr c \<Rightarrow> py_iter c))"

fun collect_texts :: "json list \<Rightarrow> error + json list" where
  "collect_texts [] = Inr []"
| "collect_texts (item # items) =
     (case py_get item ''type'' JNull of
        Inl e \<Rightarrow> Inl e
      | Inr t \<Rightarrow>
          if t = JStr ''text'' then
            (case py_get item ''text'' (JStr []) of
               Inl e \<Rightarrow> Inl e
             | Inr x \<Rightarrow>
                 (case collect_texts items of
                    Inl e \<Rightarrow> Inl e
                  | Inr xs \<Rightarrow> Inr (x # xs)))
          else collect_texts items)"

definition extract_text :: "pylib \<Rightarrow> json \<Rightarrow> error + string" where
  "extract_text lib result =
     (case py_contains ''error'' result of
        Inl e \<Rightarrow> Inl e
      | Inr True \<Rightarrow>
          (case py_getitem result ''error'' of
             Inl e \<Rightarrow> Inl e
           | Inr v \<Rightarrow> Inr (''Error: '' @ py_str lib v))
      | Inr False \<Rightarrow>
          (case has_content result of
             Inl e \<Rightarrow> Inl e
           | Inr True \<Rightarrow>
               (case content_items result of
                  Inl e \<Rightarrow> Inl e
                | Inr items \<Rightarrow>
                    (case collect_texts items of
                       Inl e \<Rightarrow> Inl e
                     | Inr texts \<Rightarrow> py_join texts))
           | Inr False \<Rightarrow> Inr (json_dumps_indent lib result)))"

text \<open>The operations that return text all call a tool and decode its reply.\<close>

definition text_of_call ::
  "pylib \<Rightarrow> (error + json) \<times> session \<Rightarrow> (error + string) \<times> session" where
  "text_of_call lib r =
     (case r of (Inl e, s') \<Rightarrow> (Inl e, s') | (Inr result, s') \<Rightarrow> (extract_text lib result, s'))"

definition navigate :: "pylib \<Rightarrow> send_env \<Rightarrow> session \<Rightarrow> string \<Rightarrow> (error + string) \<times> session" where
  "navigate lib env s url =
     text_of_call lib (call_tool lib env s ''browser_navigate'' [(''url'', JStr url)] 60)"

definition snapshot :: "pylib \<Rightarrow> send_env \<Rightarrow> session \<Rightarrow> (error + string) \<times> session" where
  "snapshot lib env s = text_of_call lib (call_tool lib env s ''browser_snapshot'' [] 60)"

definition click ::
  "pylib \<Rightarrow> send_env \<Rightarrow> session \<Rightarrow> string \<Rightarrow> string \<Rightarrow> (error + string) \<times> session" where
  "click lib env s element ref =
     text_of_call lib (call_tool lib env s ''browser_click''
       [(''element'', JStr element), (''ref'', JStr ref)] 60)"

definition type_text ::
  "pylib \<Rightarrow> send_env \<Rightarrow> session \<Rightarrow> string \<Rightarrow> string \<Rightarrow> string \<Rightarrow> bool
     \<Rightarrow> (error + string) \<times> session" where
  "type_text lib env s element ref txt submit =
     text_of_call lib (call_tool lib env s ''browser_type''
       [(''element'', JStr element), (''ref'', JStr ref), (''text'', JStr txt),
        (''submit'', JBool submit)] 60)"

definition evaluate :: "pylib \<Rightarrow> send_env \<Rightarrow> session \<Rightarrow> string \<Rightarrow> (error + string) \<times> session" where
  "evaluate lib env s script =
     text_of_call lib (call_tool lib env s ''browser_evaluate'' [(''function'', JStr script)] 60)"

definition resize :: "pylib \<Rightarrow> send_env \<Rightarrow> session \<Rightarrow> int \<Rightarrow> int \<Rightarrow> (error + string) \<times> session" where
  "resize lib env s width height =
     text_of_call lib (call_tool lib env s ''browser_resize''
       [(''width'', JInt width), (''height'', JInt height)] 60)"

text \<open>The loop of \<^verbatim>\<open>screenshot\<close>: the decoded bytes of the first item whose type is
  \<^verbatim>\<open>"image"\<close>. \<^verbatim>\<open>b64decode\<close> raises \<^verbatim>\<open>TypeError\<close> on a value that is not a string.\<close>

fun find_image :: "pylib \<Rightarrow> json list \<Rightarrow> error + string option" where
  "find_image lib [] = Inr None"
| "find_image lib (item # items) =
     (case py_get item ''type'' JNull of
        Inl e \<Rightarrow> Inl e
      | Inr t \<Rightarrow>
          if t = JStr ''image'' then
            (case py_get item ''data'' (JStr []) of
               Inl e \<Rightarrow> Inl e
             | Inr (JStr d) \<Rightarrow>
                 (case b64decode lib d of Inl e \<Rightarrow> Inl e | Inr bytes \<Rightarrow> Inr (Some bytes))
             | Inr other \<Rightarrow> Inl TypeError)
          else find_image lib items)"

text \<open>\<open>stamp\<close> is \<^verbatim>\<open>datetime.now().strftime("%Y%m%d_%H%M%S")\<close>; \<open>fs\<close> maps a path to the
  bytes of its file. The write itself is taken to succeed.\<close>

definition screenshot ::
  "pylib \<Rightarrow> string \<Rightarrow> send_env \<Rightarrow> (string \<Rightarrow> string option) \<Rightarrow> session \<Rightarrow> string option \<Rightarrow> bool
     \<Rightarrow> (error + string) \<times> session \<times> (string \<Rightarrow> string option)" where
  "screenshot lib stamp env fs s name full_page =
     (let name1 = (case name of None \<Rightarrow> stamp | Some n \<Rightarrow> if n = [] then stamp else n);
          name2 = (if endswith name1 ''.png'' then name1 else name1 @ ''.png'');
          filepath = path_join lib (output_dir s) name2
      in case call_tool lib env s ''browser_take_screenshot''
                [(''fullPage'', JBool full_page)] 60 of
           (Inl e, s') \<Rightarrow> (Inl e, s', fs)
         | (Inr result, s') \<Rightarrow>
             (case has_content result of
                Inl e \<Rightarrow> (Inl e, s', fs)
              | Inr False \<Rightarrow> (Inr (''Screenshot failed: '' @ py_str lib result), s', fs)
              | Inr True \<Rightarrow>
                  (case content_items result of
                     Inl e \<Rightarrow> (Inl e, s', fs)
                   | Inr items \<Rightarrow>
                       (case find_image lib items of
                          Inl e \<Rightarrow> (Inl e, s', fs)
                        | Inr (Some bytes) \<Rightarrow> (Inr filepath, s', fs(filepath \<mapsto> bytes))
                        | Inr None \<Rightarrow>
                            (Inr (''Screenshot failed: '' @ py_str lib result), s', fs)))))"

subsection \<open>Notions the statements use\<close>

text \<open>The integer id an inbound line carries: the line is not blank, parses to a JSON
  object, and the value under \<^verbatim>\<open>"id"\<close> equals that integer as a dict key.\<close>

definition line_id :: "pylib \<Rightarrow> line \<Rightarrow> int option" where
  "line_id lib l =
     (if strip l = [] then None
      else case json_loads lib (strip l) of
        Inr (JObj kvs) \<Rightarrow>
          (case map_of kvs ''id'' of
             None \<Rightarrow> None
           | Some v \<Rightarrow> (case pending_key v of Inr (Some k) \<Rightarrow> Some k | _ \<Rightarrow> None))
      | _ \<Rightarrow> None)"

text \<open>A content segment as the wire format has it: an object; when its type is
  \<^verbatim>\<open>"text"\<close>, its text is a string or is absent.\<close>

fun is_segment :: "json \<Rightarrow> bool" where
  "is_segment (JObj kvs) =
     (if map_of kvs ''type'' = Some (JStr ''text'')
      then (case map_of kvs ''text'' of None \<Rightarrow> True | Some (JStr t) \<Rightarrow> True | Some v \<Rightarrow> False)
      else True)"
| "is_segment v = False"

text \<open>The text fields of the segments whose type is \<^verbatim>\<open>"text"\<close>, in order (an absent
  field counts as the empty string), and their concatenation with newlines between.\<close>

fun segment_texts :: "json list \<Rightarrow> string list" where
  "segment_texts [] = []"
| "segment_texts (JObj kvs # items) =
     (if map_of kvs ''type'' = Some (JStr ''text'')
      then (case map_of kvs ''text'' of Some (JStr t) \<Rightarrow> t | _ \<Rightarrow> []) # segment_texts items
      else segment_texts items)"
| "segment_texts (v # items) = segment_texts items"

text \<open>A content segment that is an object and whose type is not \<^verbatim>\<open>"image"\<close>.\<close>

fun other_segment :: "json \<Rightarrow> bool" where
  "other_segment (JObj kvs) = (map_of kvs ''type'' \<noteq> Some (JStr ''image''))"
| "other_segment v = False"

fun join_lines :: "string list \<Rightarrow> string" where
  "join_lines [] = []"
| "join_lines [t] = t"
| "join_lines (t # u # ts) = t @ [CHR 0x0A] @ join_lines (u # ts)"

subsection \<open>Concrete inputs for the examples\<close>

text \<open>Replies of the child, the lines that carry them, and library functions that are
  right on the values the examples use (every other line counts as text that is not
  JSON here). \<open>codepoints\<close> gives the code points of ASCII text.\<close>

definition reply_text :: json where
  "reply_text =
     JObj [(''id'', JInt 1),
           (''result'', JObj [(''content'',
              JArr [JObj [(''type'', JStr ''text''), (''text'', JStr ''snapshot...'')]])])]"

definition reply_image :: json where
  "reply_image =
     JObj [(''id'', JInt 1),
           (''result'', JObj [(''content'',
              JArr [JObj [(''type'', JStr ''text''), (''text'', JStr ''took it'')],
                    JObj [(''type'', JStr ''image''), (''data'', JStr ''aGk='')]])])]"

definition reply_null :: json where
  "reply_null = JObj [(''id'', JInt 1), (''result'', JNull)]"

definition reply_error_null :: json where
  "reply_error_null = JObj [(''id'', JInt 1), (''error'', JStr ''boom''), (''result'', JNull)]"

definition reply_error :: json where
  "reply_error = JObj [(''id'', JInt 1), (''error'', JStr ''boom'')]"

definition reply_list_id :: json where
  "reply_list_id = JObj [(''id'', JArr [JInt 1])]"

definition notification :: json where
  "notification = JObj [(''method'', JStr ''notifications/message'')]"

definition codepoints :: "string \<Rightarrow> line" where
  "codepoints t = map of_char t"

definition line_text :: line where
  \<open>line_text = codepoints
     ''{"id": 1, "result": {"content": [{"type": "text", "text": "snapshot..."}]}}''\<close>

definition line_image :: line where
  \<open>line_image = codepoints
     ''{"id": 1, "result": {"content": [{"type": "text", "text": "took it"}, {"type": "image", "data": "aGk="}]}}''\<close>

definition line_null :: line where
  \<open>line_null = codepoints ''{"id": 1, "result": null}''\<close>

definition line_error_null :: line where
  \<open>line_error_null = codepoints ''{"id": 1, "error": "boom", "result": null}''\<close>

definition line_error :: line where
  \<open>line_error = codepoints ''{"id": 1, "error": "boom"}''\<close>

definition line_list_id :: line where
  \<open>line_list_id = codepoints ''{"id": [1]}''\<close>

definition line_notification :: line where
  \<open>line_notification = codepoints ''{"method": "notifications/message"}''\<close>

definition line_junk :: line where
  "line_junk = codepoints ''not json''"


definition line_blank :: line where
  "line_blank = [0x20, 0x09, 0xA0, 0x3000, 0x0A]"

definition line_deep :: line where
  "line_deep = replicate 100000 0x5B"

definition example_loads :: "line \<Rightarrow> error + json" where
  "example_loads l =
     (if l \<noteq> [] \<and> list_all (\<lambda>c. c = 0x5B) l \<and> 100000 \<le> length l then Inl RecursionError
      else case map_of [(line_text, reply_text), (line_image, reply_image),
                        (line_null, reply_null), (line_error_null, reply_error_null),
                        (line_error, reply_error), (line_list_id, reply_list_id),
                        (line_notification, notification)] l of
             Some v \<Rightarrow> Inr v
           | None \<Rightarrow> Inl JSONDecodeError)"

definition example_str :: "json \<Rightarrow> string" where
  "example_str v =
     (case v of JStr t \<Rightarrow> t | JInt n \<Rightarrow> (if n = 60 then ''60'' else ''1'') | _ \<Rightarrow> ''{...}'')"

definition example_b64 :: "string \<Rightarrow> error + string" where
  "example_b64 d =
     (if d = ''aGk='' then Inr ''hi'' else if d = [] then Inr [] else Inl Base64Error)"

definition example_lib :: pylib where
  "example_lib =
     \<lparr> json_loads = example_loads, json_dumps_indent = example_str, py_str = example_str,
       b64decode = example_b64, path_join = (\<lambda>d n. d @ ''/'' @ n) \<rparr>"

text \<open>A session after \<^verbatim>\<open>Popen\<close> and the start of the threads, before its first
  request; one with request 1 pending.\<close>

definition example_session :: session where
  "example_session =
     (session_init ''/work'' None)
       \<lparr> process := Some \<lparr> cmd = [''npx'', ''-y'', ''@playwright/mcp@latest''], stdin = [],
                           status = Alive \<rparr>,
         stdout_thread := Some ThreadRunning,
         running := True \<rparr>"

definition example_pending :: session where
  "example_pending = example_session\<lparr> msg_id := 2, pending_responses := [1 \<mapsto> []] \<rparr>"

definition env_of :: "line list \<Rightarrow> send_env" where
  "env_of ls = \<lparr> stdin_error = None, arrivals = ls \<rparr>"

definition env_broken :: send_env where
  "env_broken = \<lparr> stdin_error = Some ''[Errno 32] Broken pipe'', arrivals = [] \<rparr>"

section \<open>Properties\<close>

lemmas example_defs = example_lib_def example_loads_def example_str_def example_b64_def
  example_session_def example_pending_def env_of_def env_broken_def session_init_def
  codepoints_def line_text_def line_image_def line_null_def line_error_null_def
  line_error_def line_list_id_def line_notification_def line_junk_def
  reply_text_def reply_image_def reply_null_def reply_error_null_def
  reply_error_def reply_list_id_def notification_def

subsection \<open>What the pump can do to the session\<close>

lemma dropWhile_all: "(\<forall>c\<in>set l. P c) \<Longrightarrow> dropWhile P l = []"
  by (induction l) auto

lemma strip_blank: "(\<forall>c\<in>set l. py_isspace c) \<Longrightarrow> strip l = []"
  by (simp add: strip_def dropWhile_all)

lemma dropWhile_hd: "xs \<noteq> [] \<Longrightarrow> \<not> P (hd xs) \<Longrightarrow> dropWhile P xs = xs"
  by (cases xs) auto

lemma strip_ends:
  "l \<noteq> [] \<Longrightarrow> \<not> py_isspace (hd l) \<Longrightarrow> \<not> py_isspace (last l) \<Longrightarrow> strip l = l"
  using dropWhile_hd [of l py_isspace] dropWhile_hd [of "rev l" py_isspace]
  by (simp add: strip_def hd_rev)

lemma read_line_cases:
  "snd (read_line lib s l) = s \<or>
   (\<exists>k q m. pending_responses s k = Some q \<and> fst (read_line lib s l) = Inr () \<and>
      snd (read_line lib s l) = s\<lparr>pending_responses := (pending_responses s)(k \<mapsto> q @ [m])\<rparr>)"
  unfolding read_line_def Let_def
  by (auto split: option.splits sum.splits bool.splits)

lemma read_line_process: "process (snd (read_line lib s l)) = process s"
  using read_line_cases [of lib s l] by auto

lemma read_line_msg_id: "msg_id (snd (read_line lib s l)) = msg_id s"
  using read_line_cases [of lib s l] by auto

lemma read_line_thread: "stdout_thread (snd (read_line lib s l)) = stdout_thread s"
  using read_line_cases [of lib s l] by auto

lemma read_line_keeps:
  "pending_responses s k = Some q \<Longrightarrow>
     \<exists>q'. pending_responses (snd (read_line lib s l)) k = Some (q @ q')"
  using read_line_cases [of lib s l] by (auto simp: fun_upd_def split: if_splits)

lemma read_line_absent:
  "pending_responses s k = None \<Longrightarrow> pending_responses (snd (read_line lib s l)) k = None"
  using read_line_cases [of lib s l] by (auto simp: fun_upd_def split: if_splits)

lemma read_lines_process: "process (snd (read_lines lib s ls)) = process s"
proof (induction ls arbitrary: s)
  case Nil
  then show ?case by simp
next
  case (Cons l ls)
  obtain r s1 where rl: "read_line lib s l = (r, s1)" by (cases "read_line lib s l")
  have p: "process s1 = process s" using read_line_process [of lib s l] rl by simp
  show ?case
  proof (cases r)
    case (Inl e)
    then show ?thesis using rl p by simp
  next
    case (Inr u)
    then show ?thesis using rl p Cons.IH [of s1] by simp
  qed
qed

lemma read_lines_msg_id: "msg_id (snd (read_lines lib s ls)) = msg_id s"
proof (induction ls arbitrary: s)
  case Nil
  then show ?case by simp
next
  case (Cons l ls)
  obtain r s1 where rl: "read_line lib s l = (r, s1)" by (cases "read_line lib s l")
  have p: "msg_id s1 = msg_id s" using read_line_msg_id [of lib s l] rl by simp
  show ?case
  proof (cases r)
    case (Inl e)
    then show ?thesis using rl p by simp
  next
    case (Inr u)
    then show ?thesis using rl p Cons.IH [of s1] by simp
  qed
qed

lemma read_lines_keeps:
  "pending_responses s k = Some q \<Longrightarrow>
     \<exists>q'. pending_responses (snd (read_lines lib s ls)) k = Some (q @ q')"
proof (induction ls arbitrary: s q)
  case Nil
  then show ?case by simp
next
  case (Cons l ls)
  obtain r s1 where rl: "read_line lib s l = (r, s1)" by (cases "read_line lib s l")
  obtain q1 where q1: "pending_responses s1 k = Some (q @ q1)"
    using read_line_keeps [OF Cons.prems, of lib l] rl by auto
  show ?case
  proof (cases r)
    case (Inl e)
    then show ?thesis using rl q1 by simp
  next
    case (Inr u)
    obtain q2 where "pending_responses (snd (read_lines lib s1 ls)) k = Some ((q @ q1) @ q2)"
      using Cons.IH [OF q1] by auto
    then show ?thesis using rl Inr by simp
  qed
qed

lemma read_lines_absent:
  "pending_responses s k = None \<Longrightarrow> pending_responses (snd (read_lines lib s ls)) k = None"
proof (induction ls arbitrary: s)
  case Nil
  then show ?case by simp
next
  case (Cons l ls)
  obtain r s1 where rl: "read_line lib s l = (r, s1)" by (cases "read_line lib s l")
  have a: "pending_responses s1 k = None"
    using read_line_absent [OF Cons.prems, of lib l] rl by simp
  show ?case
  proof (cases r)
    case (Inl e)
    then show ?thesis using rl a by simp
  next
    case (Inr u)
    then show ?thesis using rl Cons.IH [OF a] by simp
  qed
qed

lemma read_stdout_process: "process (snd (read_stdout lib s ls)) = process s"
  by (simp add: read_stdout_def read_lines_process split: option.splits)

lemma read_stdout_msg_id: "msg_id (snd (read_stdout lib s ls)) = msg_id s"
  by (simp add: read_stdout_def read_lines_msg_id split: option.splits)

lemma read_stdout_keeps:
  "pending_responses s k = Some q \<Longrightarrow>
     \<exists>q'. pending_responses (snd (read_stdout lib s ls)) k = Some (q @ q')"
  by (simp add: read_stdout_def read_lines_keeps split: option.splits)

lemma read_stdout_absent:
  "pending_responses s k = None \<Longrightarrow> pending_responses (snd (read_stdout lib s ls)) k = None"
  by (simp add: read_stdout_def read_lines_absent split: option.splits)

lemma pump_pending:
  "pending_responses (pump lib s ls) = pending_responses s
   \<or> pending_responses (pump lib s ls) = pending_responses (snd (read_stdout lib s ls))"
  by (auto simp: pump_def split: option.splits thread.splits prod.splits sum.splits)

lemma pump_process: "process (pump lib s ls) = process s"
  using read_stdout_process [of lib s ls]
  by (auto simp: pump_def split: option.splits thread.splits prod.splits sum.splits)

lemma pump_msg_id: "msg_id (pump lib s ls) = msg_id s"
  using read_stdout_msg_id [of lib s ls]
  by (auto simp: pump_def split: option.splits thread.splits prod.splits sum.splits)

lemma pump_keeps:
  "pending_responses s k = Some q \<Longrightarrow>
     \<exists>q'. pending_responses (pump lib s ls) k = Some (q @ q')"
  using pump_pending [of lib s ls] read_stdout_keeps [of s k q lib ls] by auto

lemma pump_absent:
  "pending_responses s k = None \<Longrightarrow> pending_responses (pump lib s ls) k = None"
  using pump_pending [of lib s ls] read_stdout_absent [of s k lib ls] by auto

lemma read_line_other:
  "line_id lib l \<noteq> Some k \<Longrightarrow>
     pending_responses (snd (read_line lib s l)) k = pending_responses s k"
  unfolding read_line_def line_id_def Let_def
  by (auto split: option.splits sum.splits bool.splits json.splits if_splits)


lemma read_line_known:
  "line_id lib l = Some k \<Longrightarrow> pending_responses s k = Some q \<Longrightarrow>
     \<exists>msg. json_loads lib (strip l) = Inr msg \<and>
       read_line lib s l =
         (Inr (), s\<lparr>pending_responses := (pending_responses s)(k \<mapsto> q @ [msg])\<rparr>)"
  unfolding read_line_def line_id_def Let_def
  by (auto split: option.splits sum.splits bool.splits json.splits if_splits)


subsection \<open>The two blocks of a call\<close>

lemma register_ok:
  "stdin_error env = None \<Longrightarrow>
     register_and_write env s p method params =
       (Inr (msg_id s),
        s\<lparr>msg_id := msg_id s + 1,
          pending_responses := (pending_responses s)(msg_id s \<mapsto> []),
          process := Some (p\<lparr>stdin := stdin p @ [make_request method params (msg_id s)]\<rparr>)\<rparr>)"
  by (simp add: register_and_write_def Let_def)

lemma await_negative: "timeout < 0 \<Longrightarrow> await_response lib s k timeout = (Inl ValueError, s)"
  by (simp add: await_response_def)

lemma await_empty:
  "0 \<le> timeout \<Longrightarrow> pending_responses s k = Some [] \<Longrightarrow>
     await_response lib s k timeout =
       (Inl (TimeoutError (''Request timed out after '' @ py_str lib (JInt timeout) @ ''s'')),
        s\<lparr>pending_responses := (pending_responses s)(k := None)\<rparr>)"
  by (simp add: await_response_def py_del_def)

lemma await_first:
  "0 \<le> timeout \<Longrightarrow> pending_responses s k = Some (r # rest) \<Longrightarrow>
     await_response lib s k timeout =
       (Inr r, s\<lparr>pending_responses := (pending_responses s)(k := None)\<rparr>)"
  by (simp add: await_response_def py_del_def)

lemma await_msg_id: "msg_id (snd (await_response lib s k timeout)) = msg_id s"
  by (auto simp: await_response_def py_del_def split: option.splits list.splits)

lemma await_process: "process (snd (await_response lib s k timeout)) = process s"
  by (auto simp: await_response_def py_del_def split: option.splits list.splits)

subsection \<open>Lines that do not parse\<close>

text \<open>
  C5 says that a line that fails to parse as JSON is ignored and that the pump does not
  raise on it. The handler of line 102 is for \<^verbatim>\<open>JSONDecodeError\<close> only. On a line of
  100000 opening brackets \<^verbatim>\<open>json.loads\<close> raises \<^verbatim>\<open>RecursionError\<close>: the loop body raises,
  the thread ends, and the reply that follows is never delivered.
\<close>

theorem deep_line_ends_pump:
  "read_line example_lib example_pending line_deep = (Inl RecursionError, example_pending)
   \<and> stdout_thread (pump example_lib example_pending [line_deep, line_text]) = Some ThreadEnded
   \<and> pending_responses (pump example_lib example_pending [line_deep, line_text]) 1 = Some []"
proof -
  have n: "line_deep \<noteq> []" by (simp add: line_deep_def)
  have h: "\<not> py_isspace (hd line_deep)" by (simp add: line_deep_def py_isspace_def)
  have e: "\<not> py_isspace (last line_deep)" by (simp add: line_deep_def py_isspace_def)
  have s: "strip line_deep = line_deep" using strip_ends [OF n h e] .
  have a: "list_all (\<lambda>c. c = 0x5B) line_deep" by (simp add: line_deep_def list_all_iff)
  have b: "100000 \<le> length line_deep" by (simp add: line_deep_def)
  have l: "json_loads example_lib line_deep = Inl RecursionError"
    using n a b by (simp add: example_lib_def example_loads_def)
  have r: "read_line example_lib example_pending line_deep = (Inl RecursionError, example_pending)"
    using s n l by (simp add: read_line_def Let_def)
  have t: "stdout_thread example_pending = Some ThreadRunning"
    by (simp add: example_pending_def example_session_def)
  have p: "process example_pending \<noteq> None"
    by (simp add: example_pending_def example_session_def)
  have q: "pending_responses example_pending 1 = Some []"
    by (simp add: example_pending_def)
  show ?thesis
    using r t p q by (auto simp: pump_def read_stdout_def)
qed

text \<open>
  X9. The part of C5 that holds: a line that is empty or holds white space only is
  skipped, and a line on which \<^verbatim>\<open>json.loads\<close> raises \<^verbatim>\<open>JSONDecodeError\<close> is ignored: the
  loop body returns without raising and leaves the session, with every queue of the
  pending table, as it was; the pump goes on with the next line.
\<close>

theorem malformed_line_ignored:
  "(\<forall>c\<in>set l. py_isspace c) \<or> json_loads lib (strip l) = Inl JSONDecodeError \<Longrightarrow>
     read_line lib s l = (Inr (), s) \<and> read_lines lib s (l # ls) = read_lines lib s ls"
proof -
  assume h: "(\<forall>c\<in>set l. py_isspace c) \<or> json_loads lib (strip l) = Inl JSONDecodeError"
  have "strip l = [] \<or> json_loads lib (strip l) = Inl JSONDecodeError"
    using h strip_blank [of l] by auto
  then have "read_line lib s l = (Inr (), s)"
    by (auto simp: read_line_def Let_def)
  then show ?thesis by simp
qed

lemma junk_is_not_json: "json_loads example_lib (strip line_junk) = Inl JSONDecodeError"
  by (simp add: strip_def py_isspace_def list_all_iff example_defs)

theorem malformed_line_ignored_witness:
  "read_line example_lib example_pending line_blank = (Inr (), example_pending)
   \<and> read_lines example_lib example_pending [line_blank, line_text]
       = read_lines example_lib example_pending [line_text]
   \<and> read_line example_lib example_pending line_junk = (Inr (), example_pending)
   \<and> read_lines example_lib example_pending [line_junk, line_text]
       = read_lines example_lib example_pending [line_text]"
proof -
  have blank: "\<forall>c\<in>set line_blank. py_isspace c"
    by (simp add: line_blank_def py_isspace_def)
  show ?thesis
    using malformed_line_ignored [of line_blank example_lib example_pending "[line_text]"]
          malformed_line_ignored [of line_junk example_lib example_pending "[line_text]"]
          blank junk_is_not_json
    by simp
qed

subsection \<open>A write that fails\<close>

text \<open>
  C3. When the write of the request to the child's standard input raises, the call
  raises \<^verbatim>\<open>RuntimeError("Send failed: ...")\<close>, and the session afterwards differs from
  the one before only in the counter, which moved on by one, and in the pending table,
  which has no entry under the allocated id: no waiter is left behind.
\<close>

theorem send_failure_cleans:
  "process s = Some p \<Longrightarrow> stdin_error env = Some e \<Longrightarrow>
     send_request lib env s method params timeout =
       (Inl (RuntimeError (''Send failed: '' @ e)),
        s\<lparr>msg_id := msg_id s + 1,
          pending_responses := (pending_responses s)(msg_id s := None)\<rparr>)"
  by (simp add: send_request_def register_and_write_def py_del_def Let_def)

theorem send_failure_cleans_witness:
  "fst (send_request example_lib env_broken example_session ''tools/call'' None 60)
     = Inl (RuntimeError ''Send failed: [Errno 32] Broken pipe'')
   \<and> pending_responses
        (snd (send_request example_lib env_broken example_session ''tools/call'' None 60)) 1
       = None
   \<and> msg_id (snd (send_request example_lib env_broken example_session ''tools/call'' None 60))
       = 2"
proof -
  have p: "process example_session
             = Some \<lparr> cmd = [''npx'', ''-y'', ''@playwright/mcp@latest''], stdin = [],
                       status = Alive \<rparr>"
    by (simp add: example_session_def)
  have e: "stdin_error env_broken = Some ''[Errno 32] Broken pipe''"
    by (simp add: env_broken_def)
  have m: "msg_id example_session = 1"
    by (simp add: example_session_def session_init_def)
  show ?thesis
    using send_failure_cleans [OF p e, of example_lib "''tools/call''" None 60] m
    by simp
qed

subsection \<open>A request that gets no reply\<close>





subsection \<open>Messages for ids that are, or are not, pending\<close>




subsection \<open>The end of the pump and \<^verbatim>\<open>stop\<close>\<close>



subsection \<open>Request ids\<close>

lemma send_request_msg_id:
  assumes p: "process s = Some p"
  shows "msg_id (snd (send_request lib env s method params timeout)) = msg_id s + 1"
proof (cases "stdin_error env")
  case None
  show ?thesis
    using p register_ok [OF None, of s p "method" params]
    by (simp add: send_request_def await_msg_id pump_msg_id)
next
  case (Some e)
  then show ?thesis
    using p by (simp add: send_request_def register_and_write_def py_del_def Let_def)
qed

lemma send_request_process:
  assumes p: "process s = Some p"
  shows "process (snd (send_request lib env s method params timeout)) =
           (case stdin_error env of
              None \<Rightarrow> Some (p\<lparr>stdin := stdin p @ [make_request method params (msg_id s)]\<rparr>)
            | Some e \<Rightarrow> Some p)"
proof (cases "stdin_error env")
  case None
  show ?thesis
    using p None register_ok [OF None, of s p "method" params]
    by (simp add: send_request_def await_process pump_process)
next
  case (Some e)
  then show ?thesis
    using p by (simp add: send_request_def register_and_write_def py_del_def Let_def)
qed

lemma request_id_make: "request_id (make_request method params n) = [n]"
  by (simp add: make_request_def)

lemma send_request_sent_ids:
  assumes p: "process s = Some p"
  shows "sent_ids (snd (send_request lib env s method params timeout)) =
           sent_ids s @ (case stdin_error env of None \<Rightarrow> [msg_id s] | Some e \<Rightarrow> [])"
  using send_request_process [OF p, of lib env "method" params timeout] p
  by (simp add: sent_ids_def request_id_make split: option.splits)

lemma send_request_started:
  "process s \<noteq> None \<Longrightarrow> process (snd (send_request lib env s method params timeout)) \<noteq> None"
  using send_request_process [of s _ lib env "method" params timeout]
  by (auto split: option.splits)

lemma send_requests_msg_id:
  "process s \<noteq> None \<Longrightarrow> msg_id (send_requests lib s cs) = msg_id s + int (length cs)"
proof (induction cs arbitrary: s)
  case Nil
  then show ?case by simp
next
  case (Cons c cs)
  obtain env meth params timeout where c: "c = (env, meth, params, timeout)"
    by (cases c) auto
  let ?s1 = "snd (send_request lib env s meth params timeout)"
  have "process ?s1 \<noteq> None" using send_request_started [OF Cons.prems] .
  then have "msg_id (send_requests lib ?s1 cs) = msg_id ?s1 + int (length cs)"
    by (rule Cons.IH)
  moreover have "msg_id ?s1 = msg_id s + 1"
    using send_request_msg_id Cons.prems by auto
  ultimately show ?case using c by simp
qed

lemma send_requests_increasing:
  "process s \<noteq> None \<Longrightarrow> sorted_wrt (<) (sent_ids s) \<Longrightarrow> \<forall>i\<in>set (sent_ids s). i < msg_id s \<Longrightarrow>
     sorted_wrt (<) (sent_ids (send_requests lib s cs))"
proof (induction cs arbitrary: s)
  case Nil
  then show ?case by simp
next
  case (Cons c cs)
  obtain env meth params timeout where c: "c = (env, meth, params, timeout)"
    by (cases c) auto
  let ?s1 = "snd (send_request lib env s meth params timeout)"
  obtain p where p: "process s = Some p" using Cons.prems(1) by auto
  have a: "process ?s1 \<noteq> None" using send_request_started [OF Cons.prems(1)] .
  have m: "msg_id ?s1 = msg_id s + 1" using send_request_msg_id [OF p] .
  have i: "sent_ids ?s1 = sent_ids s @ (case stdin_error env of None \<Rightarrow> [msg_id s] | Some e \<Rightarrow> [])"
    using send_request_sent_ids [OF p] .
  have b: "sorted_wrt (<) (sent_ids ?s1)"
    using i Cons.prems(2,3) by (auto simp: sorted_wrt_append split: option.splits)
  have d: "\<forall>i\<in>set (sent_ids ?s1). i < msg_id ?s1"
    using i m Cons.prems(3) by (auto split: option.splits)
  show ?case using Cons.IH [OF a b d] c by simp
qed

lemma upt_0_Suc: "[0..<Suc n] = 0 # map Suc [0..<n]"
  by (simp add: upt_conv_Cons map_Suc_upt del: upt_Suc)

lemma send_requests_consecutive:
  "process s \<noteq> None \<Longrightarrow> \<forall>c\<in>set cs. stdin_error (fst c) = None \<Longrightarrow>
     sent_ids (send_requests lib s cs) = sent_ids s @ map (\<lambda>i. msg_id s + int i) [0..<length cs]"
proof (induction cs arbitrary: s)
  case Nil
  then show ?case by simp
next
  case (Cons c cs)
  obtain env meth params timeout where c: "c = (env, meth, params, timeout)"
    by (cases c) auto
  let ?s1 = "snd (send_request lib env s meth params timeout)"
  obtain p where p: "process s = Some p" using Cons.prems(1) by auto
  have w: "stdin_error env = None" using Cons.prems(2) c by simp
  have a: "process ?s1 \<noteq> None" using send_request_started [OF Cons.prems(1)] .
  have m: "msg_id ?s1 = msg_id s + 1" using send_request_msg_id [OF p] .
  have i: "sent_ids ?s1 = sent_ids s @ [msg_id s]"
    using send_request_sent_ids [OF p, of lib env meth params timeout] w by simp
  have r: "\<forall>c\<in>set cs. stdin_error (fst c) = None" using Cons.prems(2) by simp
  have "sent_ids (send_requests lib ?s1 cs)
          = sent_ids ?s1 @ map (\<lambda>i. msg_id ?s1 + int i) [0..<length cs]"
    using Cons.IH [OF a r] .
  then have "sent_ids (send_requests lib ?s1 cs)
          = sent_ids s @ msg_id s # map (\<lambda>i. msg_id s + 1 + int i) [0..<length cs]"
    using i m by simp
  moreover have "map (\<lambda>i. msg_id s + int i) [0..<length (c # cs)]
          = msg_id s # map (\<lambda>i. msg_id s + 1 + int i) [0..<length cs]"
    by (simp add: upt_0_Suc comp_def del: upt_Suc) 
  ultimately show ?case using c by (simp del: upt_Suc)
qed

text \<open>
  C4. The counter starts at 1. A call on a started session uses the counter's value as
  the id of its request and leaves the counter one higher, whatever the outcome. For
  calls made one after the other, the ids written to the child stay strictly increasing,
  the counter ends higher by the number of calls, and when no write fails the ids are
  the consecutive integers from the counter's first value.
\<close>

theorem ids_increase:
  "msg_id (session_init cwd od) = 1
   \<and> (process s = Some p \<longrightarrow>
        msg_id (snd (send_request lib env s method params timeout)) = msg_id s + 1
        \<and> (stdin_error env = None \<longrightarrow>
             fst (register_and_write env s p method params) = Inr (msg_id s)
             \<and> sent_ids (snd (send_request lib env s method params timeout))
                 = sent_ids s @ [msg_id s]))
   \<and> (process s = Some p \<and> sorted_wrt (<) (sent_ids s) \<and> (\<forall>i\<in>set (sent_ids s). i < msg_id s) \<longrightarrow>
        sorted_wrt (<) (sent_ids (send_requests lib s cs))
        \<and> msg_id (send_requests lib s cs) = msg_id s + int (length cs))
   \<and> (process s = Some p \<and> (\<forall>c\<in>set cs. stdin_error (fst c) = None) \<longrightarrow>
        sent_ids (send_requests lib s cs)
          = sent_ids s @ map (\<lambda>i. msg_id s + int i) [0..<length cs])"
proof -
  have a: "msg_id (session_init cwd od) = 1" by (simp add: session_init_def)
  have b: "process s = Some p \<longrightarrow>
        msg_id (snd (send_request lib env s method params timeout)) = msg_id s + 1
        \<and> (stdin_error env = None \<longrightarrow>
             fst (register_and_write env s p method params) = Inr (msg_id s)
             \<and> sent_ids (snd (send_request lib env s method params timeout))
                 = sent_ids s @ [msg_id s])"
    using send_request_msg_id [of s p lib env "method" params timeout]
      send_request_sent_ids [of s p lib env "method" params timeout]
      register_ok [of env s p "method" params]
    by auto
  have c: "process s = Some p \<and> sorted_wrt (<) (sent_ids s) \<and> (\<forall>i\<in>set (sent_ids s). i < msg_id s) \<longrightarrow>
        sorted_wrt (<) (sent_ids (send_requests lib s cs))
        \<and> msg_id (send_requests lib s cs) = msg_id s + int (length cs)"
    using send_requests_increasing [of s lib cs] send_requests_msg_id [of s lib cs] by auto
  have d: "process s = Some p \<and> (\<forall>c\<in>set cs. stdin_error (fst c) = None) \<longrightarrow>
        sent_ids (send_requests lib s cs)
          = sent_ids s @ map (\<lambda>i. msg_id s + int i) [0..<length cs]"
    using send_requests_consecutive [of s cs lib] by auto
  show ?thesis using a b c d by blast
qed

theorem ids_increase_witness:
  "msg_id (session_init ''/work'' None) = 1
   \<and> msg_id (snd (send_request example_lib (env_of []) example_session ''initialize'' None 60)) = 2
   \<and> sent_ids (snd (send_request example_lib (env_of []) example_session ''initialize'' None 60))
       = [1]
   \<and> sorted_wrt (<) (sent_ids (send_requests example_lib example_session
        [(env_of [], ''initialize'', None, 60), (env_broken, ''tools/call'', None, 60),
         (env_of [line_text], ''tools/call'', None, 60)]))
   \<and> msg_id (send_requests example_lib example_session
        [(env_of [], ''initialize'', None, 60), (env_broken, ''tools/call'', None, 60),
         (env_of [line_text], ''tools/call'', None, 60)]) = 4
   \<and> sent_ids (send_requests example_lib example_session
        [(env_of [], ''initialize'', None, 60), (env_of [line_text], ''tools/call'', None, 60),
         (env_of [], ''tools/call'', None, 60)]) = [1, 2, 3]"
proof -
  have p: "process example_session
             = Some \<lparr> cmd = [''npx'', ''-y'', ''@playwright/mcp@latest''], stdin = [],
                       status = Alive \<rparr>"
    by (simp add: example_session_def)
  have m: "msg_id example_session = 1"
    by (simp add: example_session_def session_init_def)
  have i: "sent_ids example_session = []"
    by (simp add: sent_ids_def example_session_def)
  have w: "stdin_error (env_of []) = None" "stdin_error (env_of [line_text]) = None"
    by (simp_all add: env_of_def)
  show ?thesis
    using ids_increase [of "''/work''" None example_session
            "\<lparr> cmd = [''npx'', ''-y'', ''@playwright/mcp@latest''], stdin = [], status = Alive \<rparr>"
            example_lib "env_of []" "''initialize''" None 60
            "[(env_of [], ''initialize'', None, 60), (env_broken, ''tools/call'', None, 60),
              (env_of [line_text], ''tools/call'', None, 60)]"]
          ids_increase [of "''/work''" None example_session
            "\<lparr> cmd = [''npx'', ''-y'', ''@playwright/mcp@latest''], stdin = [], status = Alive \<rparr>"
            example_lib "env_of []" "''initialize''" None 60
            "[(env_of [], ''initialize'', None, 60), (env_of [line_text], ''tools/call'', None, 60),
              (env_of [], ''tools/call'', None, 60)]"]
          p m i w
    by (simp del: send_requests.simps)
qed

subsection \<open>Decoding a reply\<close>

lemma py_join_strings: "py_join (map JStr ts) = Inr (join_lines ts)"
  by (induction ts rule: join_lines.induct) auto

lemma collect_texts_segments:
  "list_all is_segment items \<Longrightarrow> collect_texts items = Inr (map JStr (segment_texts items))"
proof (induction items)
  case Nil
  then show ?case by simp
next
  case (Cons item items)
  then obtain kvs where k: "item = JObj kvs" by (cases item) auto
  show ?case
    using Cons k by (auto split: option.splits json.splits)
qed

lemma extract_text_content:
  assumes e: "map_of kvs ''error'' = None"
    and r: "map_of kvs ''result'' = Some (JObj rkvs)"
    and c: "map_of rkvs ''content'' = Some (JArr items)"
    and s: "list_all is_segment items"
  shows "extract_text lib (JObj kvs) = Inr (join_lines (segment_texts items))"
  using e r c collect_texts_segments [OF s]
  by (simp add: extract_text_def has_content_def content_items_def py_join_strings)

lemma text_of_call_reply:
  "text_of_call lib (Inr reply, s') = (extract_text lib reply, s')"
  by (simp add: text_of_call_def)

text \<open>
  C7. A reply \<^verbatim>\<open>{"id": N, "result": {"content": [{"type": "text", "text": t}]}}\<close> makes
  \<^verbatim>\<open>navigate\<close> return \<open>t\<close>. In general, for a reply without an \<^verbatim>\<open>"error"\<close> key whose
  result holds a list of content segments, each of the six operations that return text
  returns the text fields of the segments of type \<^verbatim>\<open>"text"\<close>, in order, joined by
  newlines.
\<close>

theorem text_segments_joined:
  "extract_text lib
     (JObj [(''id'', JInt n),
            (''result'', JObj [(''content'',
               JArr [JObj [(''type'', JStr ''text''), (''text'', JStr t)]])])]) = Inr t
   \<and> (fst (call_tool lib env s ''browser_navigate'' [(''url'', JStr url)] 60)
         = Inr (JObj [(''id'', JInt n),
                      (''result'', JObj [(''content'',
                         JArr [JObj [(''type'', JStr ''text''), (''text'', JStr t)]])])])
       \<longrightarrow> fst (navigate lib env s url) = Inr t)
   \<and> (map_of kvs ''error'' = None \<and> map_of kvs ''result'' = Some (JObj rkvs)
        \<and> map_of rkvs ''content'' = Some (JArr items) \<and> list_all is_segment items
       \<longrightarrow> extract_text lib (JObj kvs) = Inr (join_lines (segment_texts items))
         \<and> (fst (call_tool lib env s ''browser_navigate'' [(''url'', JStr url)] 60)
               = Inr (JObj kvs)
             \<longrightarrow> fst (navigate lib env s url) = Inr (join_lines (segment_texts items)))
         \<and> (fst (call_tool lib env s ''browser_snapshot'' [] 60) = Inr (JObj kvs)
             \<longrightarrow> fst (snapshot lib env s) = Inr (join_lines (segment_texts items)))
         \<and> (fst (call_tool lib env s ''browser_click''
                    [(''element'', JStr element), (''ref'', JStr ref)] 60) = Inr (JObj kvs)
             \<longrightarrow> fst (click lib env s element ref) = Inr (join_lines (segment_texts items)))
         \<and> (fst (call_tool lib env s ''browser_type''
                    [(''element'', JStr element), (''ref'', JStr ref), (''text'', JStr txt),
                     (''submit'', JBool submit)] 60) = Inr (JObj kvs)
             \<longrightarrow> fst (type_text lib env s element ref txt submit)
                   = Inr (join_lines (segment_texts items)))
         \<and> (fst (call_tool lib env s ''browser_evaluate'' [(''function'', JStr script)] 60)
               = Inr (JObj kvs)
             \<longrightarrow> fst (evaluate lib env s script) = Inr (join_lines (segment_texts items)))
         \<and> (fst (call_tool lib env s ''browser_resize''
                    [(''width'', JInt width), (''height'', JInt height)] 60) = Inr (JObj kvs)
             \<longrightarrow> fst (resize lib env s width height) = Inr (join_lines (segment_texts items))))"
proof -
  have one: "\<And>n t. extract_text lib
     (JObj [(''id'', JInt n),
            (''result'', JObj [(''content'',
               JArr [JObj [(''type'', JStr ''text''), (''text'', JStr t)]])])]) = Inr t"
    by (simp add: extract_text_def has_content_def content_items_def)
  have call: "\<And>r reply. fst r = Inr reply \<Longrightarrow> fst (text_of_call lib r) = extract_text lib reply"
    by (auto simp: text_of_call_def split: prod.splits sum.splits)
  have gen: "map_of kvs ''error'' = None \<and> map_of kvs ''result'' = Some (JObj rkvs)
        \<and> map_of rkvs ''content'' = Some (JArr items) \<and> list_all is_segment items
       \<Longrightarrow> extract_text lib (JObj kvs) = Inr (join_lines (segment_texts items))"
    using extract_text_content [of kvs rkvs items lib] by simp
  show ?thesis
    using one call gen
    by (simp add: navigate_def snapshot_def click_def type_text_def evaluate_def resize_def)
qed

theorem text_segments_joined_witness:
  "fst (call_tool example_lib (env_of [line_text]) example_session ''browser_navigate''
          [(''url'', JStr ''https://example.com'')] 60) = Inr reply_text
   \<and> fst (navigate example_lib (env_of [line_text]) example_session ''https://example.com'')
       = Inr ''snapshot...''
   \<and> extract_text example_lib reply_image = Inr ''took it''"
proof -
  have c: "fst (call_tool example_lib (env_of [line_text]) example_session ''browser_navigate''
          [(''url'', JStr ''https://example.com'')] 60) = Inr reply_text"
    by (simp add: call_tool_def send_request_def register_and_write_def await_response_def
        pump_def read_stdout_def read_line_def py_del_def Let_def strip_def py_isspace_def
      list_all_iff example_defs)
  show ?thesis
    using c
      text_segments_joined [of example_lib 1 "''snapshot...''" "env_of [line_text]"
        example_session "''https://example.com''"
        "[(''id'', JInt 1), (''result'', JObj [(''content'',
              JArr [JObj [(''type'', JStr ''text''), (''text'', JStr ''took it'')],
                    JObj [(''type'', JStr ''image''), (''data'', JStr ''aGk='')]])])]"
        "[(''content'',
              JArr [JObj [(''type'', JStr ''text''), (''text'', JStr ''took it'')],
                    JObj [(''type'', JStr ''image''), (''data'', JStr ''aGk='')]])]"
        "[JObj [(''type'', JStr ''text''), (''text'', JStr ''took it'')],
                    JObj [(''type'', JStr ''image''), (''data'', JStr ''aGk='')]]"]
    by (simp add: reply_text_def reply_image_def)
qed

subsection \<open>A reply whose result is not a container\<close>

text \<open>
  The test \<^verbatim>\<open>"content" in result["result"]\<close> is made without checking that the result is
  a dict (or any container): on \<^verbatim>\<open>{"id": 1, "result": null}\<close> it raises \<^verbatim>\<open>TypeError\<close>.
  The three evaluations below are of this one defect.

  C8 says that a reply without an image segment makes \<^verbatim>\<open>screenshot\<close> return a failure
  string. On this reply \<^verbatim>\<open>screenshot\<close> raises instead.
\<close>

theorem screenshot_null_result_raises:
  "fst (screenshot example_lib ''20260101_120000'' (env_of [line_null]) Map.empty
          example_session (Some ''shot'') False) = Inl TypeError"
  by (simp add: screenshot_def has_content_def call_tool_def send_request_def
      register_and_write_def await_response_def
      pump_def read_stdout_def read_line_def py_del_def Let_def strip_def py_isspace_def
      list_all_iff example_defs)

text \<open>
  C9 says that every facade operation returns a reply that carries an \<^verbatim>\<open>"error"\<close> field
  as a formatted string and never raises. \<^verbatim>\<open>_extract_text\<close> looks for the field first;
  \<^verbatim>\<open>screenshot\<close> never looks for it, and on
  \<^verbatim>\<open>{"id": 1, "error": "boom", "result": null}\<close> it raises where \<^verbatim>\<open>navigate\<close> returns the
  error string.
\<close>

theorem screenshot_error_reply_raises:
  "fst (screenshot example_lib ''20260101_120000'' (env_of [line_error_null]) Map.empty
          example_session (Some ''shot'') False) = Inl TypeError
   \<and> fst (navigate example_lib (env_of [line_error_null]) example_session
            ''https://example.com'') = Inr ''Error: boom''"
  by (simp add: screenshot_def navigate_def text_of_call_def extract_text_def
      has_content_def call_tool_def send_request_def
      register_and_write_def await_response_def
      pump_def read_stdout_def read_line_def py_del_def Let_def strip_def py_isspace_def
      list_all_iff example_defs)

text \<open>
  C10 says that a reply dict with neither an \<^verbatim>\<open>"error"\<close> key nor a result with a
  \<^verbatim>\<open>"content"\<close> field is returned as indented JSON and never raises. On
  \<^verbatim>\<open>{"id": 1, "result": null}\<close> \<^verbatim>\<open>_extract_text\<close>, and so \<^verbatim>\<open>navigate\<close>, raises.
\<close>

theorem extract_text_null_result_raises:
  "extract_text example_lib reply_null = Inl TypeError
   \<and> fst (navigate example_lib (env_of [line_null]) example_session ''https://example.com'')
       = Inl TypeError"
  by (simp add: navigate_def text_of_call_def extract_text_def
      has_content_def call_tool_def send_request_def
      register_and_write_def await_response_def
      pump_def read_stdout_def read_line_def py_del_def Let_def strip_def py_isspace_def
      list_all_iff example_defs)

section \<open>Further properties of the code\<close>

subsection \<open>Which reply a call returns\<close>

lemma read_line_origin:
  assumes q: "pending_responses s k = Some q"
  shows "pending_responses (snd (read_line lib s l)) k = Some q
         \<or> (line_id lib l = Some k \<and>
             (\<exists>m. json_loads lib (strip l) = Inr m \<and>
                  pending_responses (snd (read_line lib s l)) k = Some (q @ [m])))"
proof (cases "line_id lib l = Some k")
  case True
  then show ?thesis using read_line_known [OF True q] by auto
next
  case False
  then show ?thesis using read_line_other [OF False, of s] q by simp
qed

lemma read_lines_origin:
  "pending_responses s k = Some q \<Longrightarrow>
     \<exists>q'. pending_responses (snd (read_lines lib s ls)) k = Some (q @ q') \<and>
          (\<forall>m\<in>set q'. \<exists>l\<in>set ls. line_id lib l = Some k \<and> json_loads lib (strip l) = Inr m)"
proof (induction ls arbitrary: s q)
  case Nil
  then show ?case by simp
next
  case (Cons l ls)
  obtain r s1 where rl: "read_line lib s l = (r, s1)" by (cases "read_line lib s l")
  obtain q1 where q1: "pending_responses s1 k = Some (q @ q1)"
    and o1: "\<forall>m\<in>set q1. line_id lib l = Some k \<and> json_loads lib (strip l) = Inr m"
    using read_line_origin [OF Cons.prems, of lib l] rl by auto
  show ?case
  proof (cases r)
    case (Inl e)
    have "pending_responses (snd (read_lines lib s (l # ls))) k = Some (q @ q1)"
      using rl Inl q1 by simp
    then show ?thesis using o1 by auto
  next
    case (Inr u)
    obtain q2 where q2: "pending_responses (snd (read_lines lib s1 ls)) k = Some ((q @ q1) @ q2)"
      and o2: "\<forall>m\<in>set q2. \<exists>l\<in>set ls. line_id lib l = Some k \<and> json_loads lib (strip l) = Inr m"
      using Cons.IH [OF q1] by auto
    have "pending_responses (snd (read_lines lib s (l # ls))) k = Some (q @ (q1 @ q2))"
      using rl Inr q2 by simp
    moreover have "\<forall>m\<in>set (q1 @ q2). \<exists>l'\<in>set (l # ls).
                     line_id lib l' = Some k \<and> json_loads lib (strip l') = Inr m"
      using o1 o2 by auto
    ultimately show ?thesis by blast
  qed
qed

lemma pump_origin:
  assumes q: "pending_responses s k = Some q"
  shows "\<exists>q'. pending_responses (pump lib s ls) k = Some (q @ q') \<and>
          (\<forall>m\<in>set q'. \<exists>l\<in>set ls. line_id lib l = Some k \<and> json_loads lib (strip l) = Inr m)"
proof -
  have "pending_responses (pump lib s ls) = pending_responses s
        \<or> pending_responses (pump lib s ls) = pending_responses (snd (read_lines lib s ls))"
    using pump_pending [of lib s ls] by (auto simp: read_stdout_def split: option.splits)
  then show ?thesis
  proof
    assume "pending_responses (pump lib s ls) = pending_responses s"
    then have "pending_responses (pump lib s ls) k = Some (q @ [])" using q by simp
    then show ?thesis by fastforce
  next
    assume "pending_responses (pump lib s ls) = pending_responses (snd (read_lines lib s ls))"
    then show ?thesis using read_lines_origin [OF q, of lib ls] by simp
  qed
qed

lemma delivered_origin:
  "\<forall>m\<in>set (delivered lib env s meth params).
     \<exists>l\<in>set (arrivals env). line_id lib l = Some (msg_id s) \<and> json_loads lib (strip l) = Inr m"
proof (cases "process s")
  case None
  then show ?thesis by (simp add: delivered_def)
next
  case (Some p)
  show ?thesis
  proof (cases "stdin_error env")
    case None
    define s3 where "s3 = s\<lparr>msg_id := msg_id s + 1,
          pending_responses := (pending_responses s)(msg_id s \<mapsto> []),
          process := Some (p\<lparr>stdin := stdin p @ [make_request meth params (msg_id s)]\<rparr>)\<rparr>"
    have r: "register_and_write env s p meth params = (Inr (msg_id s), s3)"
      using register_ok [OF None] by (simp add: s3_def)
    have e: "pending_responses s3 (msg_id s) = Some []" by (simp add: s3_def)
    obtain q where q: "pending_responses (pump lib s3 (arrivals env)) (msg_id s) = Some ([] @ q)"
      and o: "\<forall>m\<in>set q. \<exists>l\<in>set (arrivals env).
                 line_id lib l = Some (msg_id s) \<and> json_loads lib (strip l) = Inr m"
      using pump_origin [OF e, of lib "arrivals env"] by auto
    have "delivered lib env s meth params = q"
      using Some r q by (simp add: delivered_def)
    then show ?thesis using o by simp
  next
    case (Some e)
    then show ?thesis
      using \<open>process s = Some p\<close>
      by (simp add: delivered_def register_and_write_def py_del_def Let_def)
  qed
qed

lemma send_request_outcome:
  assumes p: "process s = Some p" and w: "stdin_error env = None" and t: "0 \<le> timeout"
  shows "send_request lib env s meth params timeout =
           (case delivered lib env s meth params of
              [] \<Rightarrow> Inl (TimeoutError (''Request timed out after '' @ py_str lib (JInt timeout) @ ''s''))
            | r # rest \<Rightarrow> Inr r,
            (pump lib
               (s\<lparr>msg_id := msg_id s + 1,
                  pending_responses := (pending_responses s)(msg_id s \<mapsto> []),
                  process := Some (p\<lparr>stdin := stdin p @ [make_request meth params (msg_id s)]\<rparr>)\<rparr>)
               (arrivals env))
             \<lparr>pending_responses :=
                (pending_responses (pump lib
                   (s\<lparr>msg_id := msg_id s + 1,
                      pending_responses := (pending_responses s)(msg_id s \<mapsto> []),
                      process := Some (p\<lparr>stdin := stdin p @ [make_request meth params (msg_id s)]\<rparr>)\<rparr>)
                   (arrivals env)))(msg_id s := None)\<rparr>)"
proof -
  define s3 where "s3 = s\<lparr>msg_id := msg_id s + 1,
          pending_responses := (pending_responses s)(msg_id s \<mapsto> []),
          process := Some (p\<lparr>stdin := stdin p @ [make_request meth params (msg_id s)]\<rparr>)\<rparr>"
  define s4 where "s4 = pump lib s3 (arrivals env)"
  have r: "register_and_write env s p meth params = (Inr (msg_id s), s3)"
    using register_ok [OF w] by (simp add: s3_def)
  have "pending_responses s3 (msg_id s) = Some []" by (simp add: s3_def)
  then obtain q where q: "pending_responses s4 (msg_id s) = Some ([] @ q)"
    using pump_keeps [of s3 "msg_id s" "[]" lib "arrivals env"] s4_def by auto
  have dq: "delivered lib env s meth params = q"
    using p r q by (simp add: delivered_def s4_def)
  have sr: "send_request lib env s meth params timeout = await_response lib s4 (msg_id s) timeout"
    using p r by (simp add: send_request_def s4_def)
  show ?thesis
  proof (cases q)
    case Nil
    then show ?thesis
      using sr dq q await_empty [OF t, of s4 "msg_id s" lib] by (simp add: s4_def s3_def)
  next
    case (Cons m rest)
    then show ?thesis
      using sr dq q await_first [OF t, of s4 "msg_id s" m rest lib] by (simp add: s4_def s3_def)
  qed
qed

lemma send_request_negative:
  assumes p: "process s = Some p" and w: "stdin_error env = None" and t: "timeout < 0"
  shows "fst (send_request lib env s meth params timeout) = Inl ValueError"
  using p register_ok [OF w, of s p meth params] await_negative [OF t]
  by (simp add: send_request_def)

text \<open>
  X1. A reply that \<^verbatim>\<open>_send_request\<close> returns was read by the pump, during the call's wait,
  from a line whose id equals the id allocated to the request: correlation is by id.
\<close>

theorem reply_matches_request:
  "fst (send_request lib env s meth params timeout) = Inr r \<Longrightarrow>
     \<exists>l\<in>set (arrivals env). line_id lib l = Some (msg_id s) \<and> json_loads lib (strip l) = Inr r"
proof -
  assume a: "fst (send_request lib env s meth params timeout) = Inr r"
  obtain p where p: "process s = Some p"
    using a by (cases "process s") (auto simp: send_request_def)
  have w: "stdin_error env = None"
    using a p by (cases "stdin_error env")
      (auto simp: send_request_def register_and_write_def py_del_def Let_def)
  have t: "0 \<le> timeout"
    using a send_request_negative [OF p w, of timeout lib meth params] by (cases "0 \<le> timeout") auto
  obtain rest where "delivered lib env s meth params = r # rest"
    using a send_request_outcome [OF p w t, of lib meth params]
    by (cases "delivered lib env s meth params") auto
  then have "r \<in> set (delivered lib env s meth params)" by simp
  then show ?thesis using delivered_origin [of lib env s meth params] by blast
qed

theorem reply_matches_request_witness:
  "fst (send_request example_lib (env_of [line_notification, line_text]) example_session
          ''tools/call'' None 60) = Inr reply_text
   \<and> (\<exists>l\<in>set (arrivals (env_of [line_notification, line_text])).
         line_id example_lib l = Some (msg_id example_session)
         \<and> json_loads example_lib (strip l) = Inr reply_text)"
proof -
  have c: "fst (send_request example_lib (env_of [line_notification, line_text]) example_session
          ''tools/call'' None 60) = Inr reply_text"
    by (simp add: send_request_def register_and_write_def await_response_def
        pump_def read_stdout_def read_line_def py_del_def Let_def strip_def py_isspace_def
        list_all_iff example_defs)
  show ?thesis
    using c reply_matches_request [OF c] by simp
qed

text \<open>
  X2. Whatever the outcome of a call on a started session with a timeout that is not
  negative, the pending table afterwards has no entry under the allocated id, and the
  outcome is a reply, a \<^verbatim>\<open>TimeoutError\<close> or a \<^verbatim>\<open>RuntimeError\<close> (never the \<^verbatim>\<open>KeyError\<close> of a
  \<^verbatim>\<open>del\<close>).
\<close>

theorem entry_never_leaks:
  assumes p: "process s = Some p" and t: "0 \<le> timeout"
  shows "pending_responses (snd (send_request lib env s meth params timeout)) (msg_id s) = None
     \<and> ((\<exists>r. fst (send_request lib env s meth params timeout) = Inr r)
        \<or> (\<exists>t. fst (send_request lib env s meth params timeout) = Inl (TimeoutError t))
        \<or> (\<exists>t. fst (send_request lib env s meth params timeout) = Inl (RuntimeError t)))"
proof (cases "stdin_error env")
  case None
  show ?thesis
    using send_request_outcome [OF p None t, of lib meth params]
    by (cases "delivered lib env s meth params") auto
next
  case (Some e)
  then show ?thesis
    using p by (simp add: send_request_def register_and_write_def py_del_def Let_def)
qed

theorem entry_never_leaks_witness:
  "pending_responses
     (snd (send_request example_lib (env_of [line_text]) example_session ''tools/call'' None 60)) 1
     = None
   \<and> pending_responses
        (snd (send_request example_lib env_broken example_session ''tools/call'' None 60)) 1
       = None"
proof -
  have p: "process example_session
             = Some \<lparr> cmd = [''npx'', ''-y'', ''@playwright/mcp@latest''], stdin = [],
                       status = Alive \<rparr>"
    by (simp add: example_session_def)
  have t: "(0::int) \<le> 60" by simp
  have m: "msg_id example_session = 1"
    by (simp add: example_session_def session_init_def)
  show ?thesis
    using entry_never_leaks [OF p t, of example_lib "env_of [line_text]" "''tools/call''" None]
      entry_never_leaks [OF p t, of example_lib env_broken "''tools/call''" None] m
    by simp
qed

text \<open>
  X3. When the write succeeds, the timeout is not negative and no line that reaches the
  pump during the wait carries the allocated id, the call ends with \<^verbatim>\<open>TimeoutError\<close>.
\<close>

theorem no_matching_line_times_out:
  assumes p: "process s = Some p" and w: "stdin_error env = None" and t: "0 \<le> timeout"
    and n: "\<forall>l\<in>set (arrivals env). line_id lib l \<noteq> Some (msg_id s)"
  shows "fst (send_request lib env s meth params timeout)
           = Inl (TimeoutError (''Request timed out after '' @ py_str lib (JInt timeout) @ ''s''))"
proof -
  have "delivered lib env s meth params = []"
    using delivered_origin [of lib env s meth params] n
    by (cases "delivered lib env s meth params") auto
  then show ?thesis
    using send_request_outcome [OF p w t, of lib meth params] by simp
qed

theorem no_matching_line_times_out_witness:
  "fst (send_request example_lib (env_of [line_junk, line_notification]) example_session
          ''tools/call'' None 60)
     = Inl (TimeoutError ''Request timed out after 60s'')"
proof -
  have p: "process example_session
             = Some \<lparr> cmd = [''npx'', ''-y'', ''@playwright/mcp@latest''], stdin = [],
                       status = Alive \<rparr>"
    by (simp add: example_session_def)
  have w: "stdin_error (env_of [line_junk, line_notification]) = None"
    by (simp add: env_of_def)
  have t: "(0::int) \<le> 60" by simp
  have n: "\<forall>l\<in>set (arrivals (env_of [line_junk, line_notification])).
             line_id example_lib l \<noteq> Some (msg_id example_session)"
    by (simp add: line_id_def strip_def py_isspace_def list_all_iff example_defs)
  have s: "py_str example_lib (JInt 60) = ''60''"
    by (simp add: example_lib_def example_str_def)
  show ?thesis
    using no_matching_line_times_out [OF p w t n, of "''tools/call''" None] s by simp
qed

subsection \<open>What the facade does with well-formed replies\<close>

lemma find_image_first:
  "list_all other_segment pre \<Longrightarrow> map_of ikvs ''type'' = Some (JStr ''image'') \<Longrightarrow>
     find_image lib (pre @ JObj ikvs # post) =
       (case (case map_of ikvs ''data'' of None \<Rightarrow> JStr [] | Some v \<Rightarrow> v) of
          JStr d \<Rightarrow> (case b64decode lib d of Inl e \<Rightarrow> Inl e | Inr bytes \<Rightarrow> Inr (Some bytes))
        | other \<Rightarrow> Inl TypeError)"
proof (induction pre)
  case Nil
  then show ?case by (simp split: json.splits)
next
  case (Cons item pre)
  then obtain kvs where k: "item = JObj kvs" by (cases item) auto
  show ?case using Cons k by (auto split: option.splits)
qed

lemma find_image_none: "list_all other_segment items \<Longrightarrow> find_image lib items = Inr None"
proof (induction items)
  case Nil
  then show ?case by simp
next
  case (Cons item items)
  then obtain kvs where k: "item = JObj kvs" by (cases item) auto
  show ?case using Cons k by (auto split: option.splits)
qed

text \<open>
  X4. When the result's content is a list whose first image segment comes after object
  segments of other types, and its data decodes, \<^verbatim>\<open>screenshot\<close> writes the decoded bytes
  to the file \<^verbatim>\<open>output_dir / name\<close> and returns that path; the name is the timestamp when
  no name (or an empty one) is given, and \<^verbatim>\<open>".png"\<close> is appended unless the name ends
  with it.
\<close>

theorem screenshot_saves_image:
  assumes c: "call_tool lib env s ''browser_take_screenshot'' [(''fullPage'', JBool full_page)] 60
                = (Inr (JObj kvs), s')"
    and r: "map_of kvs ''result'' = Some (JObj rkvs)"
    and i: "map_of rkvs ''content'' = Some (JArr (pre @ JObj ikvs # post))"
    and o: "list_all other_segment pre"
    and t: "map_of ikvs ''type'' = Some (JStr ''image'')"
    and d: "map_of ikvs ''data'' = Some (JStr data)"
    and b: "b64decode lib data = Inr bytes"
  shows "screenshot lib stamp env fs s name full_page =
           (let given = (case name of None \<Rightarrow> stamp | Some n \<Rightarrow> if n = [] then stamp else n);
                file = (if endswith given ''.png'' then given else given @ ''.png'');
                path = path_join lib (output_dir s) file
            in (Inr path, s', fs(path \<mapsto> bytes)))"
  using c r i d b find_image_first [OF o t, of lib post]
  by (simp add: screenshot_def has_content_def content_items_def Let_def)

theorem screenshot_saves_image_witness:
  "fst (screenshot example_lib ''20260101_120000'' (env_of [line_image]) Map.empty
          example_session None False) = Inr ''/work/20260101_120000.png''
   \<and> snd (snd (screenshot example_lib ''20260101_120000'' (env_of [line_image]) Map.empty
          example_session None False)) ''/work/20260101_120000.png'' = Some ''hi''
   \<and> fst (screenshot example_lib ''20260101_120000'' (env_of [line_image]) Map.empty
          example_session (Some ''shot.png'') False) = Inr ''/work/shot.png''"
proof -
  have f: "fst (call_tool example_lib (env_of [line_image]) example_session
                  ''browser_take_screenshot'' [(''fullPage'', JBool False)] 60)
             = Inr (JObj [(''id'', JInt 1),
                 (''result'', JObj [(''content'',
                    JArr [JObj [(''type'', JStr ''text''), (''text'', JStr ''took it'')],
                          JObj [(''type'', JStr ''image''), (''data'', JStr ''aGk='')]])])])"
    by (simp add: call_tool_def send_request_def register_and_write_def await_response_def
        pump_def read_stdout_def read_line_def py_del_def Let_def strip_def py_isspace_def
        list_all_iff example_defs)
  have c: "call_tool example_lib (env_of [line_image]) example_session
                  ''browser_take_screenshot'' [(''fullPage'', JBool False)] 60
             = (Inr (JObj [(''id'', JInt 1),
                 (''result'', JObj [(''content'',
                    JArr [JObj [(''type'', JStr ''text''), (''text'', JStr ''took it'')],
                          JObj [(''type'', JStr ''image''), (''data'', JStr ''aGk='')]])])]),
                snd (call_tool example_lib (env_of [line_image]) example_session
                  ''browser_take_screenshot'' [(''fullPage'', JBool False)] 60))"
    using f by (simp add: prod_eq_iff)
  have r: "map_of [(''id'', JInt 1),
                 (''result'', JObj [(''content'',
                    JArr [JObj [(''type'', JStr ''text''), (''text'', JStr ''took it'')],
                          JObj [(''type'', JStr ''image''), (''data'', JStr ''aGk='')]])])]
             ''result''
           = Some (JObj [(''content'',
                    JArr [JObj [(''type'', JStr ''text''), (''text'', JStr ''took it'')],
                          JObj [(''type'', JStr ''image''), (''data'', JStr ''aGk='')]])])"
    by simp
  have i: "map_of [(''content'',
                    JArr [JObj [(''type'', JStr ''text''), (''text'', JStr ''took it'')],
                          JObj [(''type'', JStr ''image''), (''data'', JStr ''aGk='')]])]
             ''content''
           = Some (JArr ([JObj [(''type'', JStr ''text''), (''text'', JStr ''took it'')]]
                         @ JObj [(''type'', JStr ''image''), (''data'', JStr ''aGk='')] # []))"
    by simp
  have o: "list_all other_segment [JObj [(''type'', JStr ''text''), (''text'', JStr ''took it'')]]"
    by simp
  have t: "map_of [(''type'', JStr ''image''), (''data'', JStr ''aGk='')] ''type''
             = Some (JStr ''image'')"
    by simp
  have d: "map_of [(''type'', JStr ''image''), (''data'', JStr ''aGk='')] ''data''
             = Some (JStr ''aGk='')"
    by simp
  have b: "b64decode example_lib ''aGk='' = Inr ''hi''"
    by (simp add: example_lib_def example_b64_def)
  have od: "output_dir example_session = ''/work''"
    by (simp add: example_session_def session_init_def)
  have pj: "\<And>a n. path_join example_lib a n = a @ ''/'' @ n"
    by (simp add: example_lib_def)
  show ?thesis
    using screenshot_saves_image [OF c r i o t d b, of "''20260101_120000''" Map.empty None]
      screenshot_saves_image [OF c r i o t d b, of "''20260101_120000''" Map.empty
        "Some ''shot.png''"]
      od pj
    by (simp add: Let_def endswith_def)
qed

text \<open>
  X5. When the reply has no \<^verbatim>\<open>"result"\<close> key (an error reply of the wire format), or
  its result is an object without \<^verbatim>\<open>"content"\<close>, or the content is a list of object
  segments none of which is an image, \<^verbatim>\<open>screenshot\<close> returns
  \<^verbatim>\<open>"Screenshot failed: " + str(reply)\<close> and writes no file.
\<close>

theorem screenshot_without_image:
  assumes c: "call_tool lib env s ''browser_take_screenshot'' [(''fullPage'', JBool full_page)] 60
                = (Inr (JObj kvs), s')"
    and r: "map_of kvs ''result'' = None
            \<or> (map_of kvs ''result'' = Some (JObj rkvs)
                \<and> (map_of rkvs ''content'' = None
                    \<or> (map_of rkvs ''content'' = Some (JArr items)
                        \<and> list_all other_segment items)))"
  shows "screenshot lib stamp env fs s name full_page =
           (Inr (''Screenshot failed: '' @ py_str lib (JObj kvs)), s', fs)"
  using c r find_image_none [of items lib]
  by (auto simp: screenshot_def has_content_def content_items_def Let_def)

theorem screenshot_without_image_witness:
  "screenshot example_lib ''20260101_120000'' (env_of [line_error]) Map.empty
          example_session None False
     = (Inr ''Screenshot failed: {...}'',
        snd (call_tool example_lib (env_of [line_error]) example_session
               ''browser_take_screenshot'' [(''fullPage'', JBool False)] 60),
        Map.empty)"
proof -
  have f: "fst (call_tool example_lib (env_of [line_error]) example_session
                  ''browser_take_screenshot'' [(''fullPage'', JBool False)] 60)
             = Inr (JObj [(''id'', JInt 1), (''error'', JStr ''boom'')])"
    by (simp add: call_tool_def send_request_def register_and_write_def await_response_def
        pump_def read_stdout_def read_line_def py_del_def Let_def strip_def py_isspace_def
        list_all_iff example_defs)
  have c: "call_tool example_lib (env_of [line_error]) example_session
                  ''browser_take_screenshot'' [(''fullPage'', JBool False)] 60
             = (Inr (JObj [(''id'', JInt 1), (''error'', JStr ''boom'')]),
                snd (call_tool example_lib (env_of [line_error]) example_session
                  ''browser_take_screenshot'' [(''fullPage'', JBool False)] 60))"
    using f by (simp add: prod_eq_iff)
  have r: "map_of [(''id'', JInt 1), (''error'', JStr ''boom'')] ''result'' = None
           \<or> (map_of [(''id'', JInt 1), (''error'', JStr ''boom'')] ''result'' = Some (JObj [])
                \<and> (map_of [] ''content'' = None
                    \<or> (map_of [] ''content'' = Some (JArr [])
                        \<and> list_all other_segment [])))"
    by simp
  have s: "py_str example_lib (JObj [(''id'', JInt 1), (''error'', JStr ''boom'')]) = ''{...}''"
    by (simp add: example_lib_def example_str_def)
  show ?thesis
    using screenshot_without_image [OF c r, of "''20260101_120000''" Map.empty None] s
    by simp
qed

lemma extract_text_error:
  "map_of kvs ''error'' = Some v \<Longrightarrow> extract_text lib (JObj kvs) = Inr (''Error: '' @ py_str lib v)"
  by (simp add: extract_text_def)

lemma fst_text_of_call:
  "fst r = Inr reply \<Longrightarrow> fst (text_of_call lib r) = extract_text lib reply"
  by (auto simp: text_of_call_def split: prod.splits sum.splits)

text \<open>
  X6. A reply object with an \<^verbatim>\<open>"error"\<close> key makes each of the six operations that
  return text return \<^verbatim>\<open>"Error: " + str(error)\<close>; none raises.
\<close>

theorem error_reply_returned_as_text:
  "map_of kvs ''error'' = Some v \<longrightarrow>
     extract_text lib (JObj kvs) = Inr (''Error: '' @ py_str lib v)
     \<and> (fst (call_tool lib env s ''browser_navigate'' [(''url'', JStr url)] 60) = Inr (JObj kvs)
         \<longrightarrow> fst (navigate lib env s url) = Inr (''Error: '' @ py_str lib v))
     \<and> (fst (call_tool lib env s ''browser_snapshot'' [] 60) = Inr (JObj kvs)
         \<longrightarrow> fst (snapshot lib env s) = Inr (''Error: '' @ py_str lib v))
     \<and> (fst (call_tool lib env s ''browser_click''
                [(''element'', JStr element), (''ref'', JStr ref)] 60) = Inr (JObj kvs)
         \<longrightarrow> fst (click lib env s element ref) = Inr (''Error: '' @ py_str lib v))
     \<and> (fst (call_tool lib env s ''browser_type''
                [(''element'', JStr element), (''ref'', JStr ref), (''text'', JStr txt),
                 (''submit'', JBool submit)] 60) = Inr (JObj kvs)
         \<longrightarrow> fst (type_text lib env s element ref txt submit) = Inr (''Error: '' @ py_str lib v))
     \<and> (fst (call_tool lib env s ''browser_evaluate'' [(''function'', JStr script)] 60)
           = Inr (JObj kvs)
         \<longrightarrow> fst (evaluate lib env s script) = Inr (''Error: '' @ py_str lib v))
     \<and> (fst (call_tool lib env s ''browser_resize''
                [(''width'', JInt width), (''height'', JInt height)] 60) = Inr (JObj kvs)
         \<longrightarrow> fst (resize lib env s width height) = Inr (''Error: '' @ py_str lib v))"
  using extract_text_error [of kvs v lib] fst_text_of_call [of _ "JObj kvs" lib]
  by (simp add: navigate_def snapshot_def click_def type_text_def evaluate_def resize_def)

theorem error_reply_returned_as_text_witness:
  "extract_text example_lib reply_error_null = Inr ''Error: boom''
   \<and> fst (navigate example_lib (env_of [line_error]) example_session ''https://example.com'')
       = Inr ''Error: boom''"
proof -
  have f: "fst (call_tool example_lib (env_of [line_error]) example_session
                  ''browser_navigate'' [(''url'', JStr ''https://example.com'')] 60)
             = Inr (JObj [(''id'', JInt 1), (''error'', JStr ''boom'')])"
    by (simp add: call_tool_def send_request_def register_and_write_def await_response_def
        pump_def read_stdout_def read_line_def py_del_def Let_def strip_def py_isspace_def
        list_all_iff example_defs)
  have s: "py_str example_lib (JStr ''boom'') = ''boom''"
    by (simp add: example_lib_def example_str_def)
  show ?thesis
    using f s
      error_reply_returned_as_text [of "[(''id'', JInt 1), (''error'', JStr ''boom'')]"
        "JStr ''boom''" example_lib "env_of [line_error]" example_session
        "''https://example.com''"]
      error_reply_returned_as_text [of
        "[(''id'', JInt 1), (''error'', JStr ''boom''), (''result'', JNull)]"
        "JStr ''boom''" example_lib "env_of [line_error]" example_session
        "''https://example.com''"]
    by (simp add: reply_error_null_def)
qed

text \<open>
  X7. An \<^verbatim>\<open>"error"\<close> key in the reply to \<^verbatim>\<open>initialize\<close> raises
  \<^verbatim>\<open>RuntimeError("Initialize failed: ...")\<close>, a failure of the send is passed on, and
  \<^verbatim>\<open>start\<close> either succeeds or ends in \<^verbatim>\<open>sys.exit(1)\<close>.
\<close>

theorem handshake_error_is_fatal:
  "(fst (send_request lib env s ''initialize''
           (Some [(''protocolVersion'', JStr ''2024-11-05''), (''capabilities'', JObj []),
                  (''clientInfo'', JObj [(''name'', JStr ''playwright-session''),
                                         (''version'', JStr ''1.0.0'')])]) 60) = Inr (JObj kvs)
    \<and> map_of kvs ''error'' = Some v
    \<longrightarrow> fst (initialize lib env s) = Inl (RuntimeError (''Initialize failed: '' @ py_str lib v)))
   \<and> (fst (send_request lib env s ''initialize''
           (Some [(''protocolVersion'', JStr ''2024-11-05''), (''capabilities'', JObj []),
                  (''clientInfo'', JObj [(''name'', JStr ''playwright-session''),
                                         (''version'', JStr ''1.0.0'')])]) 60) = Inl e
    \<longrightarrow> fst (initialize lib env s) = Inl e)
   \<and> (fst (start lib senv s headless) = Inr () \<or> fst (start lib senv s headless) = Inl (SystemExit 1))"
  by (auto simp: initialize_def start_def Let_def split: prod.splits sum.splits option.splits bool.splits)

theorem handshake_error_is_fatal_witness:
  "fst (initialize example_lib (env_of [line_error]) example_session)
     = Inl (RuntimeError ''Initialize failed: boom'')
   \<and> fst (initialize example_lib env_broken example_session)
       = Inl (RuntimeError ''Send failed: [Errno 32] Broken pipe'')"
proof -
  have f: "fst (send_request example_lib (env_of [line_error]) example_session ''initialize''
           (Some [(''protocolVersion'', JStr ''2024-11-05''), (''capabilities'', JObj []),
                  (''clientInfo'', JObj [(''name'', JStr ''playwright-session''),
                                         (''version'', JStr ''1.0.0'')])]) 60)
             = Inr (JObj [(''id'', JInt 1), (''error'', JStr ''boom'')])"
    by (simp add: send_request_def register_and_write_def await_response_def
        pump_def read_stdout_def read_line_def py_del_def Let_def strip_def py_isspace_def
        list_all_iff example_defs)
  have g: "fst (send_request example_lib env_broken example_session ''initialize''
           (Some [(''protocolVersion'', JStr ''2024-11-05''), (''capabilities'', JObj []),
                  (''clientInfo'', JObj [(''name'', JStr ''playwright-session''),
                                         (''version'', JStr ''1.0.0'')])]) 60)
             = Inl (RuntimeError ''Send failed: [Errno 32] Broken pipe'')"
    by (simp add: send_request_def register_and_write_def py_del_def Let_def example_defs)
  have s: "py_str example_lib (JStr ''boom'') = ''boom''"
    by (simp add: example_lib_def example_str_def)
  show ?thesis
    using f g s
      handshake_error_is_fatal [of example_lib "env_of [line_error]" example_session
        "[(''id'', JInt 1), (''error'', JStr ''boom'')]" "JStr ''boom''"
        "RuntimeError ''Send failed: [Errno 32] Broken pipe''"]
      handshake_error_is_fatal [of example_lib env_broken example_session
        "[(''id'', JInt 1), (''error'', JStr ''boom'')]" "JStr ''boom''"
        "RuntimeError ''Send failed: [Errno 32] Broken pipe''"]
    by simp
qed

text \<open>
  X8. A reply object without an \<^verbatim>\<open>"error"\<close> key, and with no \<^verbatim>\<open>"result"\<close> key or with
  a result that is an object without \<^verbatim>\<open>"content"\<close>, is returned as
  \<^verbatim>\<open>json.dumps(reply, indent=2)\<close>.
\<close>

theorem unexpected_reply_dumped:
  "map_of kvs ''error'' = None \<Longrightarrow>
   map_of kvs ''result'' = None
     \<or> (map_of kvs ''result'' = Some (JObj rkvs) \<and> map_of rkvs ''content'' = None) \<Longrightarrow>
   extract_text lib (JObj kvs) = Inr (json_dumps_indent lib (JObj kvs))"
  by (auto simp: extract_text_def has_content_def)

theorem unexpected_reply_dumped_witness:
  "extract_text example_lib (JObj [(''id'', JInt 1), (''result'', JObj [])]) = Inr ''{...}''
   \<and> extract_text example_lib notification = Inr ''{...}''"
proof -
  have s: "\<And>kvs. json_dumps_indent example_lib (JObj kvs) = ''{...}''"
    by (simp add: example_lib_def example_str_def)
  show ?thesis
    using s
      unexpected_reply_dumped [of "[(''id'', JInt 1), (''result'', JObj [])]" "[]" example_lib]
      unexpected_reply_dumped [of "[(''method'', JStr ''notifications/message'')]" "[]"
        example_lib]
    by (simp add: notification_def)
qed

end
